theory Spec2Isabelle
  imports Main "HOL-Library.Word"
begin

unbundle bit_operations_syntax

section \<open>Machine integers, failures and byte sources\<close>

type_synonym byte = "8 word"
type_synonym u16 = "16 word"
type_synonym u32 = "32 word"
type_synonym u64 = "64 word"

text \<open>
  Error values returned by the package (\<open>io.EOF\<close>, \<open>io.ErrUnexpectedEOF\<close> and the
  \<open>fmt.Errorf\<close> messages of the source), and the run-time panics of Go that the source
  can reach.  A panic is not an error value: it unwinds the caller.
\<close>

datatype error =
    EOF
  | ErrUnexpectedEOF
  | UnknownPointerFormat u16
  | FailedToReadString u64 error
  | NotABindPointer
  | UnderlyingReadMismatch u64 "byte list" "byte list"

datatype panic =
    IndexOutOfRange nat nat
  | SliceBoundsOutOfRange nat nat nat
  | NilFunctionCall

datatype failure = Error error | Panic panic

text \<open>
  A seekable in-memory byte source with a cursor: \<open>bytes.Reader\<close>, which holds the
  load-command payload.  \<open>Seek\<close> with \<open>io.SeekStart\<close> takes an \<open>int64\<close>: a negative
  offset is refused and leaves the cursor where it was; the source ignores that error
  everywhere.
\<close>

record Reader =
  data :: "byte list"
  pos :: nat

definition Seek :: "Reader \<Rightarrow> u64 \<Rightarrow> Reader" where
  "Seek rd off = (if sint off < 0 then rd else rd\<lparr>pos := unat off\<rparr>)"

text \<open>
  \<open>io.ReadFull\<close> as \<open>binary.Read\<close> uses it: an empty request succeeds without reading,
  no byte available is \<open>EOF\<close>, fewer than asked is \<open>ErrUnexpectedEOF\<close>.  A failure carries
  no reader: the one caller that goes on after a failed read, \<open>parseImports\<close> under
  \<open>Parse\<close>, takes the cursor from \<open>after_failed_read\<close>.
\<close>

definition ReadFull :: "Reader \<Rightarrow> nat \<Rightarrow> error + (byte list \<times> Reader)" where
  "ReadFull rd n =
     (if n = 0 then Inr ([], rd)
      else if length (data rd) \<le> pos rd then Inl EOF
      else if length (data rd) < pos rd + n then Inl ErrUnexpectedEOF
      else Inr (take n (drop (pos rd) (data rd)), rd\<lparr>pos := pos rd + n\<rparr>))"

datatype ByteOrder = LittleEndian | BigEndian

definition le_word :: "byte list \<Rightarrow> 'a::len word" where
  "le_word bs = foldr (\<lambda>b w. ucast b OR push_bit 8 w) bs 0"

definition Uint :: "ByteOrder \<Rightarrow> byte list \<Rightarrow> 'a::len word" where
  "Uint bo bs = (case bo of LittleEndian \<Rightarrow> le_word bs | BigEndian \<Rightarrow> le_word (rev bs))"

definition Read_u32 :: "ByteOrder \<Rightarrow> Reader \<Rightarrow> error + (u32 \<times> Reader)" where
  "Read_u32 bo rd = (case ReadFull rd 4 of Inl e \<Rightarrow> Inl e | Inr (bs, rd') \<Rightarrow> Inr (Uint bo bs, rd'))"

definition Read_u64 :: "ByteOrder \<Rightarrow> Reader \<Rightarrow> error + (u64 \<times> Reader)" where
  "Read_u64 bo rd = (case ReadFull rd 8 of Inl e \<Rightarrow> Inl e | Inr (bs, rd') \<Rightarrow> Inr (Uint bo bs, rd'))"

fun chunks :: "nat \<Rightarrow> nat \<Rightarrow> byte list \<Rightarrow> byte list list" where
  "chunks w 0 bs = []"
| "chunks w (Suc n) bs = take w bs # chunks w n (drop w bs)"

text \<open>\<open>binary.Read\<close> into a slice of \<open>n\<close> integers of \<open>w\<close> bytes each: one read of \<open>n * w\<close> bytes.\<close>

definition Read_slice :: "ByteOrder \<Rightarrow> Reader \<Rightarrow> nat \<Rightarrow> nat \<Rightarrow> error + ('a::len word list \<times> Reader)" where
  "Read_slice bo rd w n =
     (case ReadFull rd (n * w) of Inl e \<Rightarrow> Inl e
      | Inr (bs, rd') \<Rightarrow> Inr (map (Uint bo) (chunks w n bs), rd'))"

section \<open>Pointer-format codec\<close>

text \<open>
  Modelled from the spec: the constants of the pointer formats are declared in a file of
  the package that is not among the sources.  They are the values of the dyld header, in
  the order of the spec's format table.
\<close>

definition DYLD_CHAINED_PTR_ARM64E :: u16 where "DYLD_CHAINED_PTR_ARM64E = 1"
definition DYLD_CHAINED_PTR_64 :: u16 where "DYLD_CHAINED_PTR_64 = 2"
definition DYLD_CHAINED_PTR_32 :: u16 where "DYLD_CHAINED_PTR_32 = 3"
definition DYLD_CHAINED_PTR_32_CACHE :: u16 where "DYLD_CHAINED_PTR_32_CACHE = 4"
definition DYLD_CHAINED_PTR_32_FIRMWARE :: u16 where "DYLD_CHAINED_PTR_32_FIRMWARE = 5"
definition DYLD_CHAINED_PTR_64_OFFSET :: u16 where "DYLD_CHAINED_PTR_64_OFFSET = 6"
definition DYLD_CHAINED_PTR_ARM64E_KERNEL :: u16 where "DYLD_CHAINED_PTR_ARM64E_KERNEL = 7"
definition DYLD_CHAINED_PTR_64_KERNEL_CACHE :: u16 where "DYLD_CHAINED_PTR_64_KERNEL_CACHE = 8"
definition DYLD_CHAINED_PTR_ARM64E_USERLAND :: u16 where "DYLD_CHAINED_PTR_ARM64E_USERLAND = 9"
definition DYLD_CHAINED_PTR_ARM64E_FIRMWARE :: u16 where "DYLD_CHAINED_PTR_ARM64E_FIRMWARE = 10"
definition DYLD_CHAINED_PTR_X86_64_KERNEL_CACHE :: u16 where "DYLD_CHAINED_PTR_X86_64_KERNEL_CACHE = 11"
definition DYLD_CHAINED_PTR_ARM64E_USERLAND24 :: u16 where "DYLD_CHAINED_PTR_ARM64E_USERLAND24 = 12"

text \<open>Modelled from the spec: the page-start sentinels, declared in the same missing file.\<close>

definition DYLD_CHAINED_PTR_START_NONE :: u16 where "DYLD_CHAINED_PTR_START_NONE = 0xFFFF"
definition DYLD_CHAINED_PTR_START_MULTI :: u16 where "DYLD_CHAINED_PTR_START_MULTI = 0x8000"
definition DYLD_CHAINED_PTR_START_LAST :: u16 where "DYLD_CHAINED_PTR_START_LAST = 0x4000"

text \<open>Modelled from the spec: \<open>stride\<close>, by the stride column of the format table.\<close>

definition stride :: "u16 \<Rightarrow> u64" where
  "stride pointerFormat =
     (if pointerFormat = DYLD_CHAINED_PTR_ARM64E
         \<or> pointerFormat = DYLD_CHAINED_PTR_ARM64E_USERLAND
         \<or> pointerFormat = DYLD_CHAINED_PTR_ARM64E_USERLAND24 then 8
      else if pointerFormat = DYLD_CHAINED_PTR_X86_64_KERNEL_CACHE then 1
      else 4)"

text \<open>Modelled from the spec: the predicates and the next fields of the slots, by the
  spec's LSB-first layouts.  Generic 32: \<open>next:5\<close> from bit 26, \<open>bind\<close> at bit 31; generic
  64: \<open>next:12\<close> from bit 51, \<open>bind\<close> at bit 63; ARM64E: \<open>next:11\<close> from bit 51, \<open>bind\<close> at
  bit 62, \<open>auth\<close> at bit 63.\<close>

definition Generic32IsBind :: "u32 \<Rightarrow> bool" where
  "Generic32IsBind p = bit p 31"

definition Generic32Next :: "u32 \<Rightarrow> u64" where
  "Generic32Next p = ucast (drop_bit 26 p AND 0x1F)"

definition Generic64IsBind :: "u64 \<Rightarrow> bool" where
  "Generic64IsBind p = bit p 63"

definition Generic64Next :: "u64 \<Rightarrow> u64" where
  "Generic64Next p = drop_bit 51 p AND 0xFFF"

definition DcpArm64eIsBind :: "u64 \<Rightarrow> bool" where
  "DcpArm64eIsBind p = bit p 62"

definition DcpArm64eIsAuth :: "u64 \<Rightarrow> bool" where
  "DcpArm64eIsAuth p = bit p 63"

definition DcpArm64eNext :: "u64 \<Rightarrow> u64" where
  "DcpArm64eNext p = drop_bit 51 p AND 0x7FF"

text \<open>Modelled from the spec: the method \<open>Ordinal\<close> of the bind types, the low 20 bits
  (generic 32), 24 bits (generic 64 and the 24-bit ARM64E variants) or 16 bits (ARM64E) of
  the slot.\<close>

definition Ptr32Bind_Ordinal :: "u32 \<Rightarrow> u64" where
  "Ptr32Bind_Ordinal p = ucast (p AND 0xFFFFF)"

definition Ptr64Bind_Ordinal :: "u64 \<Rightarrow> u64" where
  "Ptr64Bind_Ordinal p = p AND 0xFFFFFF"

definition Arm64eBind_Ordinal :: "u64 \<Rightarrow> u64" where
  "Arm64eBind_Ordinal p = p AND 0xFFFF"

definition Arm64eAuthBind_Ordinal :: "u64 \<Rightarrow> u64" where
  "Arm64eAuthBind_Ordinal p = p AND 0xFFFF"

definition Arm64eBind24_Ordinal :: "u64 \<Rightarrow> u64" where
  "Arm64eBind24_Ordinal p = p AND 0xFFFFFF"

definition Arm64eAuthBind24_Ordinal :: "u64 \<Rightarrow> u64" where
  "Arm64eAuthBind24_Ordinal p = p AND 0xFFFFFF"

text \<open>Modelled from the spec: the targets of the rebase types that \<open>RebasePointer\<close>
  returns.  Generic 32: \<open>target:26\<close>; generic 64: \<open>target:36 | high8 << 56\<close>; ARM64E:
  \<open>target:43 | high8 << 43\<close>; ARM64E authenticated: \<open>target:32\<close>.\<close>

definition Ptr32Rebase_Target :: "u32 \<Rightarrow> u64" where
  "Ptr32Rebase_Target p = ucast (p AND 0x3FFFFFF)"

definition Ptr64Rebase_UnpackedTarget :: "u64 \<Rightarrow> u64" where
  "Ptr64Rebase_UnpackedTarget p =
     (p AND 0xFFFFFFFFF) OR push_bit 56 (drop_bit 36 p AND 0xFF)"

definition Arm64eRebase_UnpackTarget :: "u64 \<Rightarrow> u64" where
  "Arm64eRebase_UnpackTarget p =
     (p AND 0x7FFFFFFFFFF) OR push_bit 43 (drop_bit 43 p AND 0xFF)"

definition Arm64eAuthRebase_Target :: "u64 \<Rightarrow> u64" where
  "Arm64eAuthRebase_Target p = p AND 0xFFFFFFFF"

section \<open>Data model\<close>

text \<open>The fixup records appended by the chain walker, with the fields the walker sets:
  the raw slot \<open>Pointer\<close>, its location \<open>Fixup\<close>, and for a bind the name \<open>Import\<close>.
  \<open>fixup_location\<close> and \<open>fixup_raw\<close> read the first two.\<close>

datatype Fixup =
    DyldChainedPtr32Rebase u32 u64
  | DyldChainedPtr32Bind u32 u64 "byte list"
  | DyldChainedPtr32CacheRebase u32 u64
  | DyldChainedPtr32FirmwareRebase u32 u64
  | DyldChainedPtr64Rebase u64 u64
  | DyldChainedPtr64Bind u64 u64 "byte list"
  | DyldChainedPtr64RebaseOffset u64 u64
  | DyldChainedPtr64KernelCacheRebase u64 u64
  | DyldChainedPtrArm64eRebase u64 u64
  | DyldChainedPtrArm64eBind u64 u64 "byte list"
  | DyldChainedPtrArm64eAuthRebase u64 u64
  | DyldChainedPtrArm64eAuthBind u64 u64 "byte list"
  | DyldChainedPtrArm64eRebase24 u64 u64
  | DyldChainedPtrArm64eBind24 u64 u64 "byte list"
  | DyldChainedPtrArm64eAuthRebase24 u64 u64
  | DyldChainedPtrArm64eAuthBind24 u64 u64 "byte list"

fun fixup_location :: "Fixup \<Rightarrow> u64" where
  "fixup_location (DyldChainedPtr32Rebase p l) = l"
| "fixup_location (DyldChainedPtr32Bind p l n) = l"
| "fixup_location (DyldChainedPtr32CacheRebase p l) = l"
| "fixup_location (DyldChainedPtr32FirmwareRebase p l) = l"
| "fixup_location (DyldChainedPtr64Rebase p l) = l"
| "fixup_location (DyldChainedPtr64Bind p l n) = l"
| "fixup_location (DyldChainedPtr64RebaseOffset p l) = l"
| "fixup_location (DyldChainedPtr64KernelCacheRebase p l) = l"
| "fixup_location (DyldChainedPtrArm64eRebase p l) = l"
| "fixup_location (DyldChainedPtrArm64eBind p l n) = l"
| "fixup_location (DyldChainedPtrArm64eAuthRebase p l) = l"
| "fixup_location (DyldChainedPtrArm64eAuthBind p l n) = l"
| "fixup_location (DyldChainedPtrArm64eRebase24 p l) = l"
| "fixup_location (DyldChainedPtrArm64eBind24 p l n) = l"
| "fixup_location (DyldChainedPtrArm64eAuthRebase24 p l) = l"
| "fixup_location (DyldChainedPtrArm64eAuthBind24 p l n) = l"

fun fixup_raw :: "Fixup \<Rightarrow> u64" where
  "fixup_raw (DyldChainedPtr32Rebase p l) = ucast p"
| "fixup_raw (DyldChainedPtr32Bind p l n) = ucast p"
| "fixup_raw (DyldChainedPtr32CacheRebase p l) = ucast p"
| "fixup_raw (DyldChainedPtr32FirmwareRebase p l) = ucast p"
| "fixup_raw (DyldChainedPtr64Rebase p l) = p"
| "fixup_raw (DyldChainedPtr64Bind p l n) = p"
| "fixup_raw (DyldChainedPtr64RebaseOffset p l) = p"
| "fixup_raw (DyldChainedPtr64KernelCacheRebase p l) = p"
| "fixup_raw (DyldChainedPtrArm64eRebase p l) = p"
| "fixup_raw (DyldChainedPtrArm64eBind p l n) = p"
| "fixup_raw (DyldChainedPtrArm64eAuthRebase p l) = p"
| "fixup_raw (DyldChainedPtrArm64eAuthBind p l n) = p"
| "fixup_raw (DyldChainedPtrArm64eRebase24 p l) = p"
| "fixup_raw (DyldChainedPtrArm64eBind24 p l n) = p"
| "fixup_raw (DyldChainedPtrArm64eAuthRebase24 p l) = p"
| "fixup_raw (DyldChainedPtrArm64eAuthBind24 p l n) = p"

text \<open>Modelled from the spec: the fields of \<open>DyldChainedFixupsHeader\<close> and of
  \<open>DyldChainedStartsInSegment\<close>, whose declarations are not among the sources, in the
  order in which the spec lists them.\<close>

record DyldChainedFixupsHeader =
  FixupsVersion :: u32
  StartsOffset :: u32
  ImportsOffset :: u32
  SymbolsOffset :: u32
  ImportsCount :: u32
  ImportsFormat :: u32
  SymbolsFormat :: u32

text \<open>One entry of \<open>Starts\<close>: the fields of \<open>DyldChainedStartsInSegment\<close>, the page
  starts (\<open>None\<close> is Go's nil slice) and the fixups the walk appends.\<close>

record DyldChainedStarts =
  Size :: u32
  PageSize :: u16
  PointerFormat :: u16
  SegmentOffset :: u64
  MaxValidPointer :: u32
  PageCount :: u16
  PageStarts :: "u16 list option"
  Fixups :: "Fixup list"

datatype Import =
    DyldChainedImport u32
  | DyldChainedImportAddend u32 u32
  | DyldChainedImportAddend64 u64 u64

record DcfImport =
  Name :: "byte list"
  Import :: Import

text \<open>The aggregate.  \<open>lcdat\<close> is the field \<open>r\<close> of the source (the payload) and \<open>order\<close>
  its field \<open>bo\<close>.  \<open>image\<close> is its field \<open>sr\<close>.  Modelled from the spec: the interface
  \<open>types.MachoReader\<close> of \<open>sr\<close> is declared outside the sources; the image is the full
  Mach-O image as bytes, read at a cursor as the payload is.\<close>

record DyldChainedFixups =
  Header :: DyldChainedFixupsHeader
  Starts :: "DyldChainedStarts list option"
  Imports :: "DcfImport list"
  lcdat :: Reader
  image :: Reader
  order :: ByteOrder

text \<open>\<open>NewChainedFixups\<close> sets the two byte sources and the byte order; every other field
  has its zero value.\<close>

definition NewChainedFixups :: "byte list \<Rightarrow> byte list \<Rightarrow> ByteOrder \<Rightarrow> DyldChainedFixups" where
  "NewChainedFixups payload img bo =
     \<lparr>Header = \<lparr>FixupsVersion = 0, StartsOffset = 0, ImportsOffset = 0, SymbolsOffset = 0,
                ImportsCount = 0, ImportsFormat = 0, SymbolsFormat = 0\<rparr>,
      Starts = None, Imports = [],
      lcdat = \<lparr>data = payload, pos = 0\<rparr>, image = \<lparr>data = img, pos = 0\<rparr>, order = bo\<rparr>"

section \<open>Chain walker\<close>

definition seg_at :: "DyldChainedFixups \<Rightarrow> nat \<Rightarrow> failure + DyldChainedStarts" where
  "seg_at dcf segIdx =
     (case Starts dcf of
        None \<Rightarrow> Inl (Panic (IndexOutOfRange segIdx 0))
      | Some ss \<Rightarrow> if segIdx < length ss then Inr (ss ! segIdx)
                  else Inl (Panic (IndexOutOfRange segIdx (length ss))))"

text \<open>\<open>dcf.Starts[segIdx].Fixups = append(dcf.Starts[segIdx].Fixups, f)\<close>\<close>

definition append_fixup :: "DyldChainedFixups \<Rightarrow> nat \<Rightarrow> Fixup \<Rightarrow> DyldChainedFixups" where
  "append_fixup dcf segIdx f =
     dcf\<lparr>Starts := map_option
            (\<lambda>ss. ss[segIdx := (ss ! segIdx)\<lparr>Fixups := Fixups (ss ! segIdx) @ [f]\<rparr>])
            (Starts dcf)\<rparr>"

text \<open>\<open>bind.Import = dcf.Imports[bind.Ordinal()].Name\<close>: the index is not checked by the
  source, so an ordinal outside the slice is Go's index-out-of-range panic.\<close>

definition bind_import :: "DcfImport list \<Rightarrow> u64 \<Rightarrow> (byte list \<Rightarrow> Fixup) \<Rightarrow> failure + Fixup" where
  "bind_import imps ordinal mk =
     (if unat ordinal < length imps then Inr (mk (Name (imps ! unat ordinal)))
      else Inl (Panic (IndexOutOfRange (unat ordinal) (length imps))))"

text \<open>The tail shared by every case of the switch: append the record, set \<open>chainEnd\<close>
  when the slot's next field is zero, and add \<open>next(word) * stride\<close> to \<open>next\<close>.\<close>

definition emit ::
  "DyldChainedFixups \<Rightarrow> nat \<Rightarrow> u64 \<Rightarrow> u64 \<Rightarrow> u64 \<Rightarrow> failure + Fixup
     \<Rightarrow> failure + (DyldChainedFixups \<times> bool \<times> u64)" where
  "emit dcf segIdx next strd nxt fx =
     (case fx of
        Inl e \<Rightarrow> Inl e
      | Inr f \<Rightarrow> Inr (append_fixup dcf segIdx f, nxt = 0, next + nxt * strd))"

text \<open>The four-way dispatch of the ARM64E, ARM64E_KERNEL, ARM64E_FIRMWARE and
  ARM64E_USERLAND cases, and that of ARM64E_USERLAND24.\<close>

definition arm64e_fixup :: "DcfImport list \<Rightarrow> u64 \<Rightarrow> u64 \<Rightarrow> failure + Fixup" where
  "arm64e_fixup imps fixupLocation p =
     (if \<not> DcpArm64eIsBind p \<and> \<not> DcpArm64eIsAuth p then
        Inr (DyldChainedPtrArm64eRebase p fixupLocation)
      else if DcpArm64eIsBind p \<and> \<not> DcpArm64eIsAuth p then
        bind_import imps (Arm64eBind_Ordinal p) (DyldChainedPtrArm64eBind p fixupLocation)
      else if \<not> DcpArm64eIsBind p \<and> DcpArm64eIsAuth p then
        Inr (DyldChainedPtrArm64eAuthRebase p fixupLocation)
      else
        bind_import imps (Arm64eAuthBind_Ordinal p) (DyldChainedPtrArm64eAuthBind p fixupLocation))"

definition arm64e24_fixup :: "DcfImport list \<Rightarrow> u64 \<Rightarrow> u64 \<Rightarrow> failure + Fixup" where
  "arm64e24_fixup imps fixupLocation p =
     (if \<not> DcpArm64eIsBind p \<and> \<not> DcpArm64eIsAuth p then
        Inr (DyldChainedPtrArm64eRebase24 p fixupLocation)
      else if DcpArm64eIsBind p \<and> DcpArm64eIsAuth p then
        bind_import imps (Arm64eAuthBind24_Ordinal p) (DyldChainedPtrArm64eAuthBind24 p fixupLocation)
      else if \<not> DcpArm64eIsBind p \<and> DcpArm64eIsAuth p then
        Inr (DyldChainedPtrArm64eAuthRebase24 p fixupLocation)
      else
        bind_import imps (Arm64eBind24_Ordinal p) (DyldChainedPtrArm64eBind24 p fixupLocation))"

text \<open>One iteration of the loop of \<open>walkDcFixupChain\<close>: seek to \<open>fixupLocation\<close>, read
  the slot in the width of the segment's format, classify it, append the record.  The
  result is the updated aggregate, the new \<open>chainEnd\<close> and the new \<open>next\<close>.\<close>

definition walk_body ::
  "DyldChainedFixups \<Rightarrow> nat \<Rightarrow> u64 \<Rightarrow> u16 \<Rightarrow> u64
     \<Rightarrow> failure + (DyldChainedFixups \<times> bool \<times> u64)" where
  "walk_body dcf segIdx pageContentStart offsetInPage next =
     (case seg_at dcf segIdx of
        Inl e \<Rightarrow> Inl e
      | Inr seg \<Rightarrow>
         (let fixupLocation = pageContentStart + ucast offsetInPage + next;
              sr = Seek (image dcf) fixupLocation;
              pointerFormat = PointerFormat seg;
              imps = Imports dcf;
              bo = order dcf
          in
          if pointerFormat = DYLD_CHAINED_PTR_32 then
            (case Read_u32 bo sr of Inl e \<Rightarrow> Inl (Error e)
             | Inr (dcPtr, sr') \<Rightarrow>
                 emit (dcf\<lparr>image := sr'\<rparr>) segIdx next (stride pointerFormat) (Generic32Next dcPtr)
                   (if Generic32IsBind dcPtr then
                      bind_import imps (Ptr32Bind_Ordinal dcPtr) (DyldChainedPtr32Bind dcPtr fixupLocation)
                    else Inr (DyldChainedPtr32Rebase dcPtr fixupLocation)))
          else if pointerFormat = DYLD_CHAINED_PTR_32_CACHE then
            (case Read_u32 bo sr of Inl e \<Rightarrow> Inl (Error e)
             | Inr (dcPtr, sr') \<Rightarrow>
                 emit (dcf\<lparr>image := sr'\<rparr>) segIdx next (stride pointerFormat) (Generic32Next dcPtr)
                   (Inr (DyldChainedPtr32CacheRebase dcPtr fixupLocation)))
          else if pointerFormat = DYLD_CHAINED_PTR_32_FIRMWARE then
            (case Read_u32 bo sr of Inl e \<Rightarrow> Inl (Error e)
             | Inr (dcPtr, sr') \<Rightarrow>
                 emit (dcf\<lparr>image := sr'\<rparr>) segIdx next (stride pointerFormat) (Generic32Next dcPtr)
                   (Inr (DyldChainedPtr32FirmwareRebase dcPtr fixupLocation)))
          else if pointerFormat = DYLD_CHAINED_PTR_64 then
            (case Read_u64 bo sr of Inl e \<Rightarrow> Inl (Error e)
             | Inr (dcPtr64, sr') \<Rightarrow>
                 emit (dcf\<lparr>image := sr'\<rparr>) segIdx next (stride pointerFormat) (Generic64Next dcPtr64)
                   (if Generic64IsBind dcPtr64 then
                      bind_import imps (Ptr64Bind_Ordinal dcPtr64) (DyldChainedPtr64Bind dcPtr64 fixupLocation)
                    else Inr (DyldChainedPtr64Rebase dcPtr64 fixupLocation)))
          else if pointerFormat = DYLD_CHAINED_PTR_64_OFFSET then
            (case Read_u64 bo sr of Inl e \<Rightarrow> Inl (Error e)
             | Inr (dcPtr64, sr') \<Rightarrow>
                 emit (dcf\<lparr>image := sr'\<rparr>) segIdx next (stride pointerFormat) (Generic64Next dcPtr64)
                   (Inr (DyldChainedPtr64RebaseOffset dcPtr64 fixupLocation)))
          else if pointerFormat = DYLD_CHAINED_PTR_64_KERNEL_CACHE
                  \<or> pointerFormat = DYLD_CHAINED_PTR_X86_64_KERNEL_CACHE then
            (case Read_u64 bo sr of Inl e \<Rightarrow> Inl (Error e)
             | Inr (dcPtr64, sr') \<Rightarrow>
                 emit (dcf\<lparr>image := sr'\<rparr>) segIdx next (stride pointerFormat) (Generic64Next dcPtr64)
                   (Inr (DyldChainedPtr64KernelCacheRebase dcPtr64 fixupLocation)))
          else if pointerFormat = DYLD_CHAINED_PTR_ARM64E_KERNEL
                  \<or> pointerFormat = DYLD_CHAINED_PTR_ARM64E_FIRMWARE
                  \<or> pointerFormat = DYLD_CHAINED_PTR_ARM64E
                  \<or> pointerFormat = DYLD_CHAINED_PTR_ARM64E_USERLAND then
            (case Read_u64 bo sr of Inl e \<Rightarrow> Inl (Error e)
             | Inr (dcPtr64, sr') \<Rightarrow>
                 emit (dcf\<lparr>image := sr'\<rparr>) segIdx next (stride pointerFormat) (DcpArm64eNext dcPtr64)
                   (arm64e_fixup imps fixupLocation dcPtr64))
          else if pointerFormat = DYLD_CHAINED_PTR_ARM64E_USERLAND24 then
            (case Read_u64 bo sr of Inl e \<Rightarrow> Inl (Error e)
             | Inr (dcPtr64, sr') \<Rightarrow>
                 emit (dcf\<lparr>image := sr'\<rparr>) segIdx next (stride pointerFormat) (DcpArm64eNext dcPtr64)
                   (arm64e24_fixup imps fixupLocation dcPtr64))
          else Inl (Error (UnknownPointerFormat pointerFormat))))"

text \<open>The loop \<open>for !chainEnd\<close>.  It has no bound of its own: it stops at a slot whose
  next field is zero, at a failed read, or at a panic.  \<open>None\<close> is the run that never
  returns.\<close>

partial_function (option) walk_loop ::
  "DyldChainedFixups \<Rightarrow> nat \<Rightarrow> u64 \<Rightarrow> u16 \<Rightarrow> u64 \<Rightarrow> (failure + DyldChainedFixups) option" where
  "walk_loop dcf segIdx pageContentStart offsetInPage next =
     (case walk_body dcf segIdx pageContentStart offsetInPage next of
        Inl e \<Rightarrow> Some (Inl e)
      | Inr (dcf', chainEnd, next') \<Rightarrow>
          if chainEnd then Some (Inr dcf')
          else walk_loop dcf' segIdx pageContentStart offsetInPage next')"

definition walkDcFixupChain ::
  "DyldChainedFixups \<Rightarrow> nat \<Rightarrow> u16 \<Rightarrow> u16 \<Rightarrow> (failure + DyldChainedFixups) option" where
  "walkDcFixupChain dcf segIdx pageIndex offsetInPage =
     (case seg_at dcf segIdx of
        Inl e \<Rightarrow> Some (Inl e)
      | Inr seg \<Rightarrow>
          (let segOffset = SegmentOffset seg;
               pageContentStart = segOffset + ucast pageIndex * ucast (PageSize seg)
           in walk_loop dcf segIdx pageContentStart offsetInPage 0))"

section \<open>Header and starts parser\<close>

text \<open>Modelled from the spec: the declarations of \<open>DyldChainedFixupsHeader\<close> and
  \<open>DyldChainedStartsInSegment\<close> are not among the sources; \<open>binary.Read\<close> fills a struct
  from its fields in order without padding, seven 32-bit words for the header and
  4 + 2 + 2 + 8 + 4 + 2 bytes for a segment.\<close>

definition Read_header :: "ByteOrder \<Rightarrow> Reader \<Rightarrow> error + (DyldChainedFixupsHeader \<times> Reader)" where
  "Read_header bo rd =
     (case Read_slice bo rd 4 7 of
        Inl e \<Rightarrow> Inl e
      | Inr (ws, rd') \<Rightarrow>
          Inr (\<lparr>FixupsVersion = ws ! 0, StartsOffset = ws ! 1, ImportsOffset = ws ! 2,
                SymbolsOffset = ws ! 3, ImportsCount = ws ! 4, ImportsFormat = ws ! 5,
                SymbolsFormat = ws ! 6\<rparr>, rd'))"

definition Read_starts_in_segment :: "ByteOrder \<Rightarrow> Reader \<Rightarrow> error + (DyldChainedStarts \<times> Reader)" where
  "Read_starts_in_segment bo rd =
     (case ReadFull rd 22 of
        Inl e \<Rightarrow> Inl e
      | Inr (bs, rd') \<Rightarrow>
          Inr (\<lparr>Size = Uint bo (take 4 bs),
                PageSize = Uint bo (take 2 (drop 4 bs)),
                PointerFormat = Uint bo (take 2 (drop 6 bs)),
                SegmentOffset = Uint bo (take 8 (drop 8 bs)),
                MaxValidPointer = Uint bo (take 4 (drop 16 bs)),
                PageCount = Uint bo (take 2 (drop 20 bs)),
                PageStarts = None, Fixups = []\<rparr>, rd'))"

text \<open>The zero value that \<open>make\<close> leaves in \<open>Starts\<close> for a segment without chains.\<close>

definition zero_starts :: DyldChainedStarts where
  "zero_starts = \<lparr>Size = 0, PageSize = 0, PointerFormat = 0, SegmentOffset = 0,
                   MaxValidPointer = 0, PageCount = 0, PageStarts = None, Fixups = []\<rparr>"

text \<open>The loop over \<open>segInfoOffsets\<close>; \<open>StartsOffset + segInfoOffset\<close> is a 32-bit sum.\<close>

fun parse_segments ::
  "ByteOrder \<Rightarrow> u32 \<Rightarrow> Reader \<Rightarrow> u32 list \<Rightarrow> error + (DyldChainedStarts list \<times> Reader)" where
  "parse_segments bo startsOffset rd [] = Inr ([], rd)"
| "parse_segments bo startsOffset rd (segInfoOffset # rest) =
     (if segInfoOffset = 0 then
        (case parse_segments bo startsOffset rd rest of
           Inl e \<Rightarrow> Inl e
         | Inr (ss, rd') \<Rightarrow> Inr (zero_starts # ss, rd'))
      else
        (case Read_starts_in_segment bo (Seek rd (ucast (startsOffset + segInfoOffset))) of
           Inl e \<Rightarrow> Inl e
         | Inr (seg, rd1) \<Rightarrow>
             (case Read_slice bo rd1 2 (unat (PageCount seg)) of
                Inl e \<Rightarrow> Inl e
              | Inr (ps, rd2) \<Rightarrow>
                  (case parse_segments bo startsOffset rd2 rest of
                     Inl e \<Rightarrow> Inl e
                   | Inr (ss, rd') \<Rightarrow> Inr (seg\<lparr>PageStarts := Some ps\<rparr> # ss, rd')))))"

definition ParseStarts :: "DyldChainedFixups \<Rightarrow> failure + DyldChainedFixups" where
  "ParseStarts dcf =
     (case Read_header (order dcf) (lcdat dcf) of
        Inl e \<Rightarrow> Inl (Error e)
      | Inr (hdr, rd0) \<Rightarrow>
          (case Read_u32 (order dcf) (Seek rd0 (ucast (StartsOffset hdr))) of
             Inl e \<Rightarrow> Inl (Error e)
           | Inr (segCount, rd1) \<Rightarrow>
               (case Read_slice (order dcf) rd1 4 (unat segCount) of
                  Inl e \<Rightarrow> Inl (Error e)
                | Inr (segInfoOffsets, rd2) \<Rightarrow>
                    (case parse_segments (order dcf) (StartsOffset hdr) rd2 segInfoOffsets of
                       Inl e \<Rightarrow> Inl (Error e)
                     | Inr (ss, rd3) \<Rightarrow>
                         Inr (dcf\<lparr>Header := hdr, Starts := Some ss, lcdat := rd3\<rparr>)))))"

section \<open>Import-table parser\<close>

text \<open>Modelled from the spec: the import record types, their \<open>NameOffset\<close> and the
  values of the import formats are not among the sources.  An IMPORT record is
  \<open>lib_ordinal:8 | weak_import:1 | name_offset:23\<close>, an IMPORT_ADDEND record the same word
  and a 32-bit addend, an IMPORT_ADDEND64 record
  \<open>lib_ordinal:16 | weak_import:1 | reserved:15 | name_offset:32\<close> and a 64-bit addend.\<close>

definition DC_IMPORT :: u32 where "DC_IMPORT = 1"
definition DC_IMPORT_ADDEND :: u32 where "DC_IMPORT_ADDEND = 2"
definition DC_IMPORT_ADDEND64 :: u32 where "DC_IMPORT_ADDEND64 = 3"

fun NameOffset :: "Import \<Rightarrow> u64" where
  "NameOffset (DyldChainedImport w) = ucast (drop_bit 9 w)"
| "NameOffset (DyldChainedImportAddend w a) = ucast (drop_bit 9 w)"
| "NameOffset (DyldChainedImportAddend64 w a) = drop_bit 32 w"

text \<open>\<open>bufio.Reader.ReadString('\x00')\<close> on the symbol pool, a section of the payload that
  ends where the payload ends: the bytes from the offset up to and including the first NUL,
  or \<open>EOF\<close> when the payload ends first.  \<open>strings.Trim(s, "\x00")\<close> strips the NULs at
  both ends.\<close>

definition ReadString :: "byte list \<Rightarrow> nat \<Rightarrow> error + byte list" where
  "ReadString payload off =
     (let rest = drop off payload
      in if 0 \<in> set rest then Inr (takeWhile (\<lambda>b. b \<noteq> 0) rest @ [0]) else Inl EOF)"

definition Trim_NUL :: "byte list \<Rightarrow> byte list" where
  "Trim_NUL s = rev (dropWhile (\<lambda>b. b = 0) (rev (dropWhile (\<lambda>b. b = 0) s)))"

text \<open>The cursor of a reader after \<open>io.ReadFull\<close> has failed on it.\<close>

definition after_failed_read :: "Reader \<Rightarrow> Reader" where
  "after_failed_read rd = rd\<lparr>pos := max (pos rd) (length (data rd))\<rparr>"

text \<open>The loop over the decoded records: it stops at the first name that has no NUL, the
  imports appended before it stay in the aggregate.\<close>

fun read_names :: "DyldChainedFixups \<Rightarrow> Import list \<Rightarrow> error option \<times> DyldChainedFixups" where
  "read_names dcf [] = (None, dcf)"
| "read_names dcf (i # rest) =
     (case ReadString (data (lcdat dcf)) (unat (SymbolsOffset (Header dcf)) + unat (NameOffset i)) of
        Inl e \<Rightarrow>
          (Some (FailedToReadString (ucast (SymbolsOffset (Header dcf)) + NameOffset i) e), dcf)
      | Inr s \<Rightarrow>
          read_names (dcf\<lparr>Imports := Imports dcf @ [\<lparr>Name = Trim_NUL s, Import = i\<rparr>]\<rparr>) rest)"

definition read_imports :: "ByteOrder \<Rightarrow> Reader \<Rightarrow> u32 \<Rightarrow> nat \<Rightarrow> error + (Import list \<times> Reader)" where
  "read_imports bo rd importsFormat n =
     (if importsFormat = DC_IMPORT then
        (case ReadFull rd (n * 4) of
           Inl e \<Rightarrow> Inl e
         | Inr (bs, rd') \<Rightarrow> Inr (map (\<lambda>c. DyldChainedImport (Uint bo c)) (chunks 4 n bs), rd'))
      else if importsFormat = DC_IMPORT_ADDEND then
        (case ReadFull rd (n * 8) of
           Inl e \<Rightarrow> Inl e
         | Inr (bs, rd') \<Rightarrow>
             Inr (map (\<lambda>c. DyldChainedImportAddend (Uint bo (take 4 c)) (Uint bo (drop 4 c)))
                    (chunks 8 n bs), rd'))
      else if importsFormat = DC_IMPORT_ADDEND64 then
        (case ReadFull rd (n * 16) of
           Inl e \<Rightarrow> Inl e
         | Inr (bs, rd') \<Rightarrow>
             Inr (map (\<lambda>c. DyldChainedImportAddend64 (Uint bo (take 8 c)) (Uint bo (drop 8 c)))
                    (chunks 16 n bs), rd'))
      else Inr ([], rd))"

text \<open>\<open>parseImports\<close> returns its error and the aggregate as it has left it.\<close>

definition parseImports :: "DyldChainedFixups \<Rightarrow> error option \<times> DyldChainedFixups" where
  "parseImports dcf =
     (let rd = Seek (lcdat dcf) (ucast (ImportsOffset (Header dcf)))
      in case read_imports (order dcf) rd (ImportsFormat (Header dcf))
                (unat (ImportsCount (Header dcf))) of
           Inl e \<Rightarrow> (Some e, dcf\<lparr>lcdat := after_failed_read rd\<rparr>)
         | Inr (imports, rd') \<Rightarrow> read_names (dcf\<lparr>lcdat := rd'\<rparr>) imports)"

section \<open>Parse\<close>

text \<open>The loop over an overflow sequence of page starts.  \<open>overflowIndex\<close> has the 16-bit
  type of a page start; an index outside \<open>PageStarts\<close> is a panic.\<close>

partial_function (option) multi_loop ::
  "DyldChainedFixups \<Rightarrow> nat \<Rightarrow> u16 \<Rightarrow> u16 list \<Rightarrow> u16 \<Rightarrow> (failure + DyldChainedFixups) option" where
  "multi_loop dcf segIdx pageIndex pageStarts overflowIndex =
     (if unat overflowIndex < length pageStarts then
        (let chainEnd = (pageStarts ! unat overflowIndex AND DYLD_CHAINED_PTR_START_LAST \<noteq> 0);
             offsetInPage = pageStarts ! unat overflowIndex AND NOT DYLD_CHAINED_PTR_START_LAST
         in case walkDcFixupChain dcf segIdx pageIndex offsetInPage of
              None \<Rightarrow> None
            | Some (Inl e) \<Rightarrow> Some (Inl e)
            | Some (Inr dcf') \<Rightarrow>
                if chainEnd then Some (Inr dcf')
                else multi_loop dcf' segIdx pageIndex pageStarts (overflowIndex + 1))
      else Some (Inl (Panic (IndexOutOfRange (unat overflowIndex) (length pageStarts)))))"

text \<open>The body of the loop over the pages of a segment.\<close>

definition walk_page ::
  "DyldChainedFixups \<Rightarrow> nat \<Rightarrow> u16 list \<Rightarrow> u16 \<Rightarrow> (failure + DyldChainedFixups) option" where
  "walk_page dcf segIdx pageStarts pageIndex =
     (if unat pageIndex < length pageStarts then
        (let offsetInPage = pageStarts ! unat pageIndex
         in if offsetInPage = DYLD_CHAINED_PTR_START_NONE then Some (Inr dcf)
            else if offsetInPage AND DYLD_CHAINED_PTR_START_MULTI \<noteq> 0 then
              multi_loop dcf segIdx pageIndex pageStarts
                (offsetInPage AND NOT DYLD_CHAINED_PTR_START_MULTI)
            else walkDcFixupChain dcf segIdx pageIndex offsetInPage)
      else Some (Inl (Panic (IndexOutOfRange (unat pageIndex) (length pageStarts)))))"

text \<open>\<open>for pageIndex := uint16(0); pageIndex < PageCount; pageIndex++\<close>, over the list of
  the indices below \<open>PageCount\<close>.\<close>

fun walk_pages ::
  "DyldChainedFixups \<Rightarrow> nat \<Rightarrow> u16 list \<Rightarrow> nat list \<Rightarrow> (failure + DyldChainedFixups) option" where
  "walk_pages dcf segIdx pageStarts [] = Some (Inr dcf)"
| "walk_pages dcf segIdx pageStarts (i # rest) =
     (case walk_page dcf segIdx pageStarts (of_nat i) of
        None \<Rightarrow> None
      | Some (Inl e) \<Rightarrow> Some (Inl e)
      | Some (Inr dcf') \<Rightarrow> walk_pages dcf' segIdx pageStarts rest)"

text \<open>\<open>for segIdx, start := range dcf.Starts\<close>: \<open>start\<close> is the copy of the entry that the
  range statement takes; the walk changes only the \<open>Fixups\<close> of entries already copied.\<close>

fun walk_segments ::
  "DyldChainedFixups \<Rightarrow> (nat \<times> DyldChainedStarts) list \<Rightarrow> (failure + DyldChainedFixups) option" where
  "walk_segments dcf [] = Some (Inr dcf)"
| "walk_segments dcf ((segIdx, start) # rest) =
     (case PageStarts start of
        None \<Rightarrow> walk_segments dcf rest
      | Some pageStarts \<Rightarrow>
          (case walk_pages dcf segIdx pageStarts [0..<unat (PageCount start)] of
             None \<Rightarrow> None
           | Some (Inl e) \<Rightarrow> Some (Inl e)
           | Some (Inr dcf') \<Rightarrow> walk_segments dcf' rest))"

definition starts_list :: "DyldChainedFixups \<Rightarrow> DyldChainedStarts list" where
  "starts_list dcf = (case Starts dcf of None \<Rightarrow> [] | Some ss \<Rightarrow> ss)"

text \<open>\<open>Parse\<close>.  The error of \<open>parseImports\<close> is dropped by the source (the call is a
  statement), so only its effect on the aggregate remains.  A failure stands for the
  source's \<open>return nil, err\<close> or for a panic.\<close>

definition Parse :: "DyldChainedFixups \<Rightarrow> (failure + DyldChainedFixups) option" where
  "Parse dcf =
     (case (if Starts dcf = None then ParseStarts dcf else Inr dcf) of
        Inl e \<Rightarrow> Some (Inl e)
      | Inr dcf1 \<Rightarrow>
          (let dcf2 = snd (parseImports dcf1)
           in walk_segments dcf2 (zip [0..<length (starts_list dcf2)] (starts_list dcf2))))"

section \<open>Query surface\<close>

text \<open>The ordinal that one iteration of the scan of \<open>GetImportForPointer\<close> assigns, or
  \<open>None\<close> where the iteration ends in \<open>continue\<close> before the bounds check.\<close>

definition import_ordinal :: "DyldChainedStarts \<Rightarrow> u64 \<Rightarrow> u64 option" where
  "import_ordinal s pointer =
     (if PageCount s = 0 then None
      else if PointerFormat s = DYLD_CHAINED_PTR_32 then
        (let ptr = (ucast pointer :: u32)
         in if \<not> Generic32IsBind ptr then None else Some (Ptr32Bind_Ordinal ptr))
      else if PointerFormat s = DYLD_CHAINED_PTR_64 then
        (if \<not> Generic64IsBind pointer then None else Some (Ptr64Bind_Ordinal pointer))
      else if PointerFormat s = DYLD_CHAINED_PTR_ARM64E then
        (if \<not> DcpArm64eIsBind pointer then None
         else if DcpArm64eIsAuth pointer then Some (Arm64eAuthBind_Ordinal pointer)
         else Some (Arm64eBind_Ordinal pointer))
      else None)"

fun import_scan :: "DcfImport list \<Rightarrow> DyldChainedStarts list \<Rightarrow> u64 \<Rightarrow> error + DcfImport" where
  "import_scan imps [] pointer = Inl NotABindPointer"
| "import_scan imps (s # rest) pointer =
     (case import_ordinal s pointer of
        None \<Rightarrow> import_scan imps rest pointer
      | Some ordinal \<Rightarrow>
          if unat ordinal < length imps then Inr (imps ! unat ordinal)
          else import_scan imps rest pointer)"

definition GetImportForPointer :: "DyldChainedFixups \<Rightarrow> u64 \<Rightarrow> error + DcfImport" where
  "GetImportForPointer dcf pointer = import_scan (Imports dcf) (starts_list dcf) pointer"

text \<open>The value that one iteration of the scan of \<open>RebasePointer\<close> returns, or \<open>None\<close>
  where the iteration falls out of the switch.\<close>

definition rebase_target :: "DyldChainedStarts \<Rightarrow> u64 \<Rightarrow> u64 \<Rightarrow> u64 option" where
  "rebase_target s preferredLoadAddress pointer =
     (if PageCount s = 0 then None
      else if PointerFormat s = DYLD_CHAINED_PTR_32 then
        (let ptr = (ucast pointer :: u32)
         in if \<not> Generic32IsBind ptr then Some (Ptr32Rebase_Target ptr) else None)
      else if PointerFormat s = DYLD_CHAINED_PTR_64 then
        (if \<not> Generic64IsBind pointer then Some (Ptr64Rebase_UnpackedTarget pointer) else None)
      else if PointerFormat s = DYLD_CHAINED_PTR_ARM64E then
        (if \<not> DcpArm64eIsBind pointer then
           (if DcpArm64eIsAuth pointer then
              Some (Arm64eAuthRebase_Target pointer + preferredLoadAddress)
            else Some (Arm64eRebase_UnpackTarget pointer))
         else None)
      else None)"

fun rebase_scan :: "DyldChainedStarts list \<Rightarrow> u64 \<Rightarrow> u64 \<Rightarrow> u64" where
  "rebase_scan [] preferredLoadAddress pointer = pointer"
| "rebase_scan (s # rest) preferredLoadAddress pointer =
     (case rebase_target s preferredLoadAddress pointer of
        None \<Rightarrow> rebase_scan rest preferredLoadAddress pointer
      | Some v \<Rightarrow> v)"

definition RebasePointer :: "DyldChainedFixups \<Rightarrow> u64 \<Rightarrow> u64 \<Rightarrow> u64" where
  "RebasePointer dcf preferredLoadAddress pointer =
     rebase_scan (starts_list dcf) preferredLoadAddress pointer"

section \<open>Read-through overlay\<close>

text \<open>Modelled from the spec: the interface \<open>Rebase\<close> and its implementations are not
  among the sources.  A rebase is taken by what \<open>patchReadBytes\<close> asks of it: its raw slot
  word \<open>Raw()\<close> and its resolution \<open>Resolve(base)\<close>; its \<open>Offset()\<close> is the key under which
  \<open>init\<close> stores it.\<close>

record Rebase =
  Raw :: u64
  Resolve :: "u64 \<Rightarrow> u64"

text \<open>The lazily loaded fields of \<open>LazyRebasedReader\<close> as \<open>init\<close> leaves them.  \<open>rebases\<close>
  lists the entries of the map in the order in which the range statement of
  \<open>patchReadBytes\<close> visits them, which Go leaves open; \<open>byteOrder\<close> is \<open>lrr.dcf.bo\<close>, from
  which \<open>init\<close> takes \<open>writePointer\<close>.\<close>

record LazyRebasedReader =
  baseAddr :: u64
  rebases :: "(u64 \<times> Rebase) list"
  pointerSize :: u64
  byteOrder :: ByteOrder

text \<open>A byte slice of Go: \<open>content\<close> are the \<open>len\<close> bytes of the slice, \<open>spare\<close> the bytes
  of its backing array between \<open>len\<close> and \<open>cap\<close>, which a slice expression can reach.\<close>

record ByteSlice =
  content :: "byte list"
  spare :: "byte list"

definition le_bytes32 :: "u32 \<Rightarrow> byte list" where
  "le_bytes32 v = [ucast v, ucast (drop_bit 8 v), ucast (drop_bit 16 v), ucast (drop_bit 24 v)]"

definition le_bytes64 :: "u64 \<Rightarrow> byte list" where
  "le_bytes64 v = [ucast v, ucast (drop_bit 8 v), ucast (drop_bit 16 v), ucast (drop_bit 24 v),
                   ucast (drop_bit 32 v), ucast (drop_bit 40 v), ucast (drop_bit 48 v),
                   ucast (drop_bit 56 v)]"

definition PutUint32 :: "ByteOrder \<Rightarrow> u32 \<Rightarrow> byte list" where
  "PutUint32 bo v = (case bo of LittleEndian \<Rightarrow> le_bytes32 v | BigEndian \<Rightarrow> rev (le_bytes32 v))"

definition PutUint64 :: "ByteOrder \<Rightarrow> u64 \<Rightarrow> byte list" where
  "PutUint64 bo v = (case bo of LittleEndian \<Rightarrow> le_bytes64 v | BigEndian \<Rightarrow> rev (le_bytes64 v))"

text \<open>\<open>writePointer\<close> as the switch of \<open>init\<close> sets it: \<open>bo.PutUint64\<close> for pointer size 8,
  \<open>bo.PutUint32\<close> of the low 32 bits for 4, and nil otherwise.  The result is the content
  of \<open>buf\<close> after the call.\<close>

definition writePointer :: "LazyRebasedReader \<Rightarrow> (u64 \<Rightarrow> byte list) option" where
  "writePointer lrr =
     (if pointerSize lrr = 8 then Some (PutUint64 (byteOrder lrr))
      else if pointerSize lrr = 4 then Some (\<lambda>y. PutUint32 (byteOrder lrr) (ucast y))
      else None)"

text \<open>The slice expression \<open>a[low:high]\<close> on \<open>uint64\<close> indices: it panics unless
  \<open>low \<le> high \<le> cap(a)\<close>.\<close>

definition slice_of :: "byte list \<Rightarrow> u64 \<Rightarrow> u64 \<Rightarrow> failure + byte list" where
  "slice_of arr low high =
     (if unat low \<le> unat high \<and> unat high \<le> length arr
      then Inr (take (unat high - unat low) (drop (unat low) arr))
      else Inl (Panic (SliceBoundsOutOfRange (unat low) (unat high) (length arr))))"

text \<open>\<open>copy(p[dstOff:dstOff+dstSize], src)\<close>: the shorter of the two lengths is copied
  into the backing array of \<open>p\<close>.\<close>

definition copy_into :: "ByteSlice \<Rightarrow> u64 \<Rightarrow> u64 \<Rightarrow> byte list \<Rightarrow> ByteSlice" where
  "copy_into p dstOff dstSize src =
     (let arr = content p @ spare p;
          n = min (unat dstSize) (length src);
          arr' = take (unat dstOff) arr @ take n src @ drop (unat dstOff + n) arr
      in \<lparr>content = take (length (content p)) arr', spare = drop (length (content p)) arr'\<rparr>)"

text \<open>The body of the loop of \<open>patchReadBytes\<close> for one entry of the map.\<close>

definition patch_rebase ::
  "LazyRebasedReader \<Rightarrow> u64 \<Rightarrow> ByteSlice \<Rightarrow> u64 \<times> Rebase \<Rightarrow> failure + ByteSlice" where
  "patch_rebase lrr off p e =
     (let rOff = fst e; r = snd e;
          max = off + of_nat (length (content p))
      in if rOff + pointerSize lrr < off \<or> rOff > max then Inr p
         else
          (let dstOff = (if rOff < off then 0 else rOff - off);
               srcOff = (if rOff < off then off - rOff else 0);
               dstSize0 = (if rOff < off then pointerSize lrr - srcOff else pointerSize lrr);
               dstSize = (if rOff + dstSize0 > max then dstSize0 - (rOff + dstSize0 - max)
                          else dstSize0)
           in case writePointer lrr of
                None \<Rightarrow> Inl (Panic NilFunctionCall)
              | Some put \<Rightarrow>
                 (case slice_of (put (Raw r)) srcOff (srcOff + dstSize) of
                    Inl f \<Rightarrow> Inl f
                  | Inr expected \<Rightarrow>
                     (case slice_of (content p @ spare p) dstOff (dstOff + dstSize) of
                        Inl f \<Rightarrow> Inl f
                      | Inr found \<Rightarrow>
                          if expected \<noteq> found then
                            Inl (Error (UnderlyingReadMismatch rOff found expected))
                          else
                           (case slice_of (put (Resolve r (baseAddr lrr))) srcOff (pointerSize lrr) of
                              Inl f \<Rightarrow> Inl f
                            | Inr src \<Rightarrow> Inr (copy_into p dstOff dstSize src))))))"

fun patch_loop ::
  "LazyRebasedReader \<Rightarrow> u64 \<Rightarrow> ByteSlice \<Rightarrow> (u64 \<times> Rebase) list \<Rightarrow> failure option \<times> ByteSlice" where
  "patch_loop lrr off p [] = (None, p)"
| "patch_loop lrr off p (e # rest) =
     (case patch_rebase lrr off p e of
        Inl f \<Rightarrow> (Some f, p)
      | Inr p' \<Rightarrow> patch_loop lrr off p' rest)"

definition patchReadBytes :: "LazyRebasedReader \<Rightarrow> ByteSlice \<Rightarrow> u64 \<Rightarrow> failure option \<times> ByteSlice" where
  "patchReadBytes lrr p off = patch_loop lrr off p (rebases lrr)"

text \<open>The underlying \<open>io.ReaderAt\<close>: asked for a number of bytes at an offset, it delivers
  bytes (at most as many as asked) and possibly an error.  \<open>fill\<close> is the buffer after it
  has written them.\<close>

type_synonym ReaderAt = "nat \<Rightarrow> u64 \<Rightarrow> byte list \<times> error option"

definition fill :: "ByteSlice \<Rightarrow> byte list \<Rightarrow> ByteSlice" where
  "fill p bs = p\<lparr>content := take (length (content p)) (bs @ drop (length bs) (content p))\<rparr>"

text \<open>\<open>ReadAt\<close> on a reader that \<open>init\<close> has set up (\<open>lrr.dcf\<close> is not nil): the read is
  delegated, its error is returned as it is, and otherwise the buffer is patched.  The
  result is the buffer, \<open>n\<close> and the failure.\<close>

definition ReadAt ::
  "LazyRebasedReader \<Rightarrow> ReaderAt \<Rightarrow> ByteSlice \<Rightarrow> u64 \<Rightarrow> ByteSlice \<times> nat \<times> failure option" where
  "ReadAt lrr underlying p off =
     (case underlying (length (content p)) off of
        (bs, Some err) \<Rightarrow> (fill p bs, min (length bs) (length (content p)), Some (Error err))
      | (bs, None) \<Rightarrow>
          (case patchReadBytes lrr (fill p bs) off of
             (Some f, p') \<Rightarrow> (p', 0, Some f)
           | (None, p') \<Rightarrow> (p', min (length bs) (length (content p)), None)))"

section \<open>Vocabulary of the properties\<close>

text \<open>The next field that the walker decodes from a slot, by the case of the switch that
  handles the format (\<open>Generic32Next\<close>, \<open>Generic64Next\<close> or \<open>DcpArm64eNext\<close>), and the
  width of the slot that case reads.\<close>

definition slot_next :: "u16 \<Rightarrow> u64 \<Rightarrow> u64" where
  "slot_next pointerFormat raw =
     (if pointerFormat = DYLD_CHAINED_PTR_32 \<or> pointerFormat = DYLD_CHAINED_PTR_32_CACHE
         \<or> pointerFormat = DYLD_CHAINED_PTR_32_FIRMWARE then Generic32Next (ucast raw)
      else if pointerFormat = DYLD_CHAINED_PTR_64 \<or> pointerFormat = DYLD_CHAINED_PTR_64_OFFSET
         \<or> pointerFormat = DYLD_CHAINED_PTR_64_KERNEL_CACHE
         \<or> pointerFormat = DYLD_CHAINED_PTR_X86_64_KERNEL_CACHE then Generic64Next raw
      else DcpArm64eNext raw)"

definition slot_width :: "u16 \<Rightarrow> nat" where
  "slot_width pointerFormat =
     (if pointerFormat = DYLD_CHAINED_PTR_32 \<or> pointerFormat = DYLD_CHAINED_PTR_32_CACHE
         \<or> pointerFormat = DYLD_CHAINED_PTR_32_FIRMWARE then 4 else 8)"

text \<open>The twelve formats that have a case in the switch of the walker; any other format
  takes the default case, the unknown-format error.\<close>

definition known_format :: "u16 \<Rightarrow> bool" where
  "known_format pointerFormat \<longleftrightarrow>
     pointerFormat = DYLD_CHAINED_PTR_ARM64E \<or> pointerFormat = DYLD_CHAINED_PTR_64
     \<or> pointerFormat = DYLD_CHAINED_PTR_32 \<or> pointerFormat = DYLD_CHAINED_PTR_32_CACHE
     \<or> pointerFormat = DYLD_CHAINED_PTR_32_FIRMWARE \<or> pointerFormat = DYLD_CHAINED_PTR_64_OFFSET
     \<or> pointerFormat = DYLD_CHAINED_PTR_ARM64E_KERNEL
     \<or> pointerFormat = DYLD_CHAINED_PTR_64_KERNEL_CACHE
     \<or> pointerFormat = DYLD_CHAINED_PTR_ARM64E_USERLAND
     \<or> pointerFormat = DYLD_CHAINED_PTR_ARM64E_FIRMWARE
     \<or> pointerFormat = DYLD_CHAINED_PTR_X86_64_KERNEL_CACHE
     \<or> pointerFormat = DYLD_CHAINED_PTR_ARM64E_USERLAND24"

text \<open>The slot word that lies in the image bytes at position \<open>p\<close>: the four or eight
  bytes from \<open>p\<close> on in the byte order of the image, a 32-bit word widened to 64 bits;
  \<open>None\<close> where the image has fewer bytes left.\<close>

definition image_slot :: "ByteOrder \<Rightarrow> byte list \<Rightarrow> u16 \<Rightarrow> nat \<Rightarrow> u64 option" where
  "image_slot bo img pointerFormat p =
     (if p + slot_width pointerFormat \<le> length img then
        Some (if slot_width pointerFormat = 4
              then ucast (Uint bo (take 4 (drop p img)) :: u32)
              else Uint bo (take 8 (drop p img)))
      else None)"

text \<open>The record that the switch of the walker makes of the slot word \<open>raw\<close> found at the
  location \<open>loc\<close>: the record type by the format and the bind and auth bits of the word,
  with the name of the import for a bind.\<close>

definition slot_record :: "DcfImport list \<Rightarrow> u16 \<Rightarrow> u64 \<Rightarrow> u64 \<Rightarrow> failure + Fixup" where
  "slot_record imps pointerFormat loc raw =
     (if pointerFormat = DYLD_CHAINED_PTR_32 then
        (if Generic32IsBind (ucast raw) then
           bind_import imps (Ptr32Bind_Ordinal (ucast raw)) (DyldChainedPtr32Bind (ucast raw) loc)
         else Inr (DyldChainedPtr32Rebase (ucast raw) loc))
      else if pointerFormat = DYLD_CHAINED_PTR_32_CACHE then
        Inr (DyldChainedPtr32CacheRebase (ucast raw) loc)
      else if pointerFormat = DYLD_CHAINED_PTR_32_FIRMWARE then
        Inr (DyldChainedPtr32FirmwareRebase (ucast raw) loc)
      else if pointerFormat = DYLD_CHAINED_PTR_64 then
        (if Generic64IsBind raw then
           bind_import imps (Ptr64Bind_Ordinal raw) (DyldChainedPtr64Bind raw loc)
         else Inr (DyldChainedPtr64Rebase raw loc))
      else if pointerFormat = DYLD_CHAINED_PTR_64_OFFSET then
        Inr (DyldChainedPtr64RebaseOffset raw loc)
      else if pointerFormat = DYLD_CHAINED_PTR_64_KERNEL_CACHE
              \<or> pointerFormat = DYLD_CHAINED_PTR_X86_64_KERNEL_CACHE then
        Inr (DyldChainedPtr64KernelCacheRebase raw loc)
      else if pointerFormat = DYLD_CHAINED_PTR_ARM64E_KERNEL
              \<or> pointerFormat = DYLD_CHAINED_PTR_ARM64E_FIRMWARE
              \<or> pointerFormat = DYLD_CHAINED_PTR_ARM64E
              \<or> pointerFormat = DYLD_CHAINED_PTR_ARM64E_USERLAND then
        arm64e_fixup imps loc raw
      else if pointerFormat = DYLD_CHAINED_PTR_ARM64E_USERLAND24 then
        arm64e24_fixup imps loc raw
      else Inl (Error (UnknownPointerFormat pointerFormat)))"

text \<open>The visit of the location \<open>loc\<close>, stated on the bytes of the image.  The slot is the
  one at position \<open>loc\<close> of the image; where \<open>loc\<close> is not a valid \<open>int64\<close> offset the seek
  is refused, its error is not looked at, and the slot is the one at the cursor of the
  image reader.  The visit yields the record of the slot, the next field of the slot and
  the cursor behind the slot; it fails with the unknown-format error, with \<open>EOF\<close> when no
  byte is left at the position, with the unexpected \<open>EOF\<close> when the image ends inside the
  slot, and with the failure of the bind.\<close>

definition visit ::
  "ByteOrder \<Rightarrow> byte list \<Rightarrow> DcfImport list \<Rightarrow> u16 \<Rightarrow> u64 \<Rightarrow> nat \<Rightarrow> failure + (Fixup \<times> u64 \<times> nat)" where
  "visit bo img imps pointerFormat loc cursor =
     (let p = (if sint loc < 0 then cursor else unat loc)
      in if \<not> known_format pointerFormat then Inl (Error (UnknownPointerFormat pointerFormat))
         else case image_slot bo img pointerFormat p of
                None \<Rightarrow> Inl (Error (if length img \<le> p then EOF else ErrUnexpectedEOF))
              | Some raw \<Rightarrow>
                  (case slot_record imps pointerFormat loc raw of
                     Inl e \<Rightarrow> Inl e
                   | Inr f \<Rightarrow> Inr (f, slot_next pointerFormat raw, p + slot_width pointerFormat)))"


text \<open>The aggregate after a walk that has appended \<open>fs\<close> to segment \<open>segIdx\<close> and left the
  image reader as \<open>rd\<close>, and the result of a walk whose run has emitted \<open>fs\<close> and ended with
  \<open>out\<close>: the failure, or the aggregate with the records and the cursor.\<close>

definition with_fixups ::
  "DyldChainedFixups \<Rightarrow> nat \<Rightarrow> DyldChainedStarts \<Rightarrow> Fixup list \<Rightarrow> Reader \<Rightarrow> DyldChainedFixups" where
  "with_fixups dcf segIdx seg fs rd =
     dcf\<lparr>Starts := map_option (\<lambda>ss. ss[segIdx := seg\<lparr>Fixups := Fixups seg @ fs\<rparr>]) (Starts dcf),
         image := rd\<rparr>"


text \<open>The state of the loop of \<open>walkDcFixupChain\<close> (the aggregate, \<open>chainEnd\<close> and \<open>next\<close>)
  after \<open>k\<close> iterations, or after the last one where the loop has ended before; a failure
  where an iteration has returned an error or panicked.\<close>

fun walk_iterations ::
  "nat \<Rightarrow> DyldChainedFixups \<Rightarrow> nat \<Rightarrow> u64 \<Rightarrow> u16 \<Rightarrow> failure + (DyldChainedFixups \<times> bool \<times> u64)" where
  "walk_iterations 0 dcf segIdx pageContentStart offsetInPage = Inr (dcf, False, 0)"
| "walk_iterations (Suc k) dcf segIdx pageContentStart offsetInPage =
     (case walk_iterations k dcf segIdx pageContentStart offsetInPage of
        Inl e \<Rightarrow> Inl e
      | Inr (d, chainEnd, nxt) \<Rightarrow>
          if chainEnd then Inr (d, chainEnd, nxt)
          else walk_body d segIdx pageContentStart offsetInPage nxt)"

text \<open>The two conditions of the spec on the location of a record: within the byte range
  of its segment, and at a multiple of the stride from the start of the segment.\<close>

definition within_segment :: "DyldChainedStarts \<Rightarrow> Fixup \<Rightarrow> bool" where
  "within_segment seg f \<longleftrightarrow>
     unat (SegmentOffset seg) \<le> unat (fixup_location f)
     \<and> unat (fixup_location f) < unat (SegmentOffset seg) + unat (Size seg)"

definition stride_aligned :: "DyldChainedStarts \<Rightarrow> Fixup \<Rightarrow> bool" where
  "stride_aligned seg f \<longleftrightarrow>
     unat (fixup_location f - SegmentOffset seg) mod unat (stride (PointerFormat seg)) = 0"



text \<open>The aggregate with another value in the header field \<open>SymbolsFormat\<close>, and the
  result of a run with that value put into the aggregate it returns.\<close>

definition set_symbols_format :: "u32 \<Rightarrow> DyldChainedFixups \<Rightarrow> DyldChainedFixups" where
  "set_symbols_format v dcf = dcf\<lparr>Header := (Header dcf)\<lparr>SymbolsFormat := v\<rparr>\<rparr>"

definition with_symbols_format ::
  "u32 \<Rightarrow> (failure + DyldChainedFixups) option \<Rightarrow> (failure + DyldChainedFixups) option" where
  "with_symbols_format v res = map_option (map_sum id (set_symbols_format v)) res"

section \<open>Concrete inputs\<close>

text \<open>A segment of one page of \<open>0x4000\<close> bytes at file offset \<open>0x1000\<close> whose only chain
  starts at the beginning of the page, and an aggregate whose starts are already parsed.\<close>

definition seg_of_format :: "u16 \<Rightarrow> DyldChainedStarts" where
  "seg_of_format fmt = \<lparr>Size = 0x4000, PageSize = 0x4000, PointerFormat = fmt,
       SegmentOffset = 0x1000, MaxValidPointer = 0, PageCount = 1, PageStarts = Some [0],
       Fixups = []\<rparr>"

definition dcf_of_segments ::
  "DyldChainedStarts list \<Rightarrow> DcfImport list \<Rightarrow> byte list \<Rightarrow> DyldChainedFixups" where
  "dcf_of_segments ss imps img =
     \<lparr>Header = \<lparr>FixupsVersion = 0, StartsOffset = 0, ImportsOffset = 0, SymbolsOffset = 0,
                ImportsCount = 0, ImportsFormat = 1, SymbolsFormat = 0\<rparr>,
      Starts = Some ss, Imports = imps,
      lcdat = \<lparr>data = [], pos = 0\<rparr>, image = \<lparr>data = img, pos = 0\<rparr>, order = LittleEndian\<rparr>"

text \<open>Scenario S2: a PTR_32 page whose chain starts at offset 4 and has two slots.\<close>

definition image_s2 :: "byte list" where
  "image_s2 = replicate 0x1004 0 @ [0x00, 0x01, 0x00, 0x04, 0x00, 0x02, 0x00, 0x00]"

definition seg_s2 :: DyldChainedStarts where
  "seg_s2 = \<lparr>Size = 0x4000, PageSize = 0x4000, PointerFormat = DYLD_CHAINED_PTR_32,
       SegmentOffset = 0x1000, MaxValidPointer = 0, PageCount = 1, PageStarts = Some [4],
       Fixups = []\<rparr>"

text \<open>The image of scenario S2 cut behind the first slot of the chain.\<close>

definition image_s2_cut :: "byte list" where
  "image_s2_cut = replicate 0x1004 0 @ [0x00, 0x01, 0x00, 0x04]"

text \<open>A payload with one PTR_64 segment at offset 0 of size 8 whose page start is 1, and
  an image of 17 bytes with two rebase slots: at offset 1 the slot \<open>0x0010000000002000\<close>
  (target \<open>0x2000\<close>, next 2, so an advance of 8 bytes), at offset 9 the slot \<open>0x3000\<close>
  (next 0); \<open>seg_escape\<close> is that segment after the walk.\<close>

definition payload_escape :: "byte list" where
  "payload_escape = [0x00, 0x00, 0x00, 0x00, 0x1C, 0x00, 0x00, 0x00, 0x3C, 0x00, 0x00, 0x00, 0x3C, 0x00, 0x00, 0x00, 0x00, 0x00, 0x00, 0x00, 0x01, 0x00, 0x00, 0x00, 0x00, 0x00, 0x00, 0x00, 0x01, 0x00, 0x00, 0x00, 0x08, 0x00, 0x00, 0x00, 0x08, 0x00, 0x00, 0x00, 0x00, 0x40, 0x02, 0x00, 0x00, 0x00, 0x00, 0x00, 0x00, 0x00, 0x00, 0x00, 0x00, 0x00, 0x00, 0x00, 0x01, 0x00, 0x01, 0x00]"

definition image_escape :: "byte list" where
  "image_escape = [0,  0x00, 0x20, 0, 0, 0, 0, 0x10, 0,  0x00, 0x30, 0, 0, 0, 0, 0, 0]"

definition seg_escape :: DyldChainedStarts where
  "seg_escape = \<lparr>Size = 8, PageSize = 0x4000, PointerFormat = DYLD_CHAINED_PTR_64,
              SegmentOffset = 0, MaxValidPointer = 0, PageCount = 1, PageStarts = Some [1],
              Fixups = [DyldChainedPtr64Rebase 0x0010000000002000 1,
                        DyldChainedPtr64Rebase 0x3000 9]\<rparr>"

text \<open>Scenario S6: a payload with three imports and one PTR_64 segment, and an image whose
  slot at offset 0 is a bind of ordinal 5.\<close>

definition payload_s6 :: "byte list" where
  "payload_s6 = [0x00, 0x00, 0x00, 0x00, 0x1C, 0x00, 0x00, 0x00, 0x3C, 0x00, 0x00, 0x00, 0x48, 0x00, 0x00, 0x00, 0x03, 0x00, 0x00, 0x00, 0x01, 0x00, 0x00, 0x00, 0x00, 0x00, 0x00, 0x00, 0x01, 0x00, 0x00, 0x00, 0x08, 0x00, 0x00, 0x00, 0x00, 0x40, 0x00, 0x00, 0x00, 0x40, 0x02, 0x00, 0x00, 0x00, 0x00, 0x00, 0x00, 0x00, 0x00, 0x00, 0x00, 0x00, 0x00, 0x00, 0x01, 0x00, 0x00, 0x00, 0x01, 0x00, 0x00, 0x00, 0x01, 0x06, 0x00, 0x00, 0x01, 0x0C, 0x00, 0x00, 0x5F, 0x61, 0x00, 0x5F, 0x62, 0x00, 0x5F, 0x63, 0x00]"

definition image_s6 :: "byte list" where
  "image_s6 = [0x05, 0, 0, 0, 0, 0, 0, 0x80]"

text \<open>A payload without segments whose only import names the symbol at offset 0 of a pool
  that holds the two bytes \<open>_a\<close> and no NUL; \<open>parsed_unterminated\<close> is the aggregate after
  \<open>ParseStarts\<close>.\<close>

definition payload_unterminated :: "byte list" where
  "payload_unterminated = [0x00, 0x00, 0x00, 0x00, 0x1C, 0x00, 0x00, 0x00, 0x20, 0x00, 0x00, 0x00, 0x24, 0x00, 0x00, 0x00, 0x01, 0x00, 0x00, 0x00, 0x01, 0x00, 0x00, 0x00, 0x00, 0x00, 0x00, 0x00, 0x00, 0x00, 0x00, 0x00, 0x01, 0x00, 0x00, 0x00, 0x5F, 0x61]"

definition parsed_unterminated :: DyldChainedFixups where
  "parsed_unterminated =
     \<lparr>Header = \<lparr>FixupsVersion = 0, StartsOffset = 28, ImportsOffset = 32, SymbolsOffset = 36,
                ImportsCount = 1, ImportsFormat = 1, SymbolsFormat = 0\<rparr>,
      Starts = Some [], Imports = [],
      lcdat = \<lparr>data = payload_unterminated, pos = 32\<rparr>,
      image = \<lparr>data = [], pos = 0\<rparr>, order = LittleEndian\<rparr>"

text \<open>A payload whose header has \<open>symbols_format = 1\<close>, with one import \<open>_a\<close> and one PTR_64
  segment, and an image whose slot at offset 0 is a bind of ordinal 0.\<close>

definition payload_zlib :: "byte list" where
  "payload_zlib = [0x00, 0x00, 0x00, 0x00, 0x1C, 0x00, 0x00, 0x00, 0x3C, 0x00, 0x00, 0x00, 0x40, 0x00, 0x00, 0x00, 0x01, 0x00, 0x00, 0x00, 0x01, 0x00, 0x00, 0x00, 0x01, 0x00, 0x00, 0x00, 0x01, 0x00, 0x00, 0x00, 0x08, 0x00, 0x00, 0x00, 0x00, 0x40, 0x00, 0x00, 0x00, 0x40, 0x02, 0x00, 0x00, 0x00, 0x00, 0x00, 0x00, 0x00, 0x00, 0x00, 0x00, 0x00, 0x00, 0x00, 0x01, 0x00, 0x00, 0x00, 0x01, 0x00, 0x00, 0x00, 0x5F, 0x61, 0x00]"

definition image_zlib :: "byte list" where
  "image_zlib = [0x00, 0, 0, 0, 0, 0, 0, 0x80]"




text \<open>An overlay with pointer size 8 and one rebase at offset \<open>0x10\<close> whose raw word is
  \<open>0x11223344\<close> and which resolves to the raw word plus the base address.\<close>

definition rebase_11223344 :: Rebase where
  "rebase_11223344 = \<lparr>Raw = 0x11223344, Resolve = (\<lambda>base. 0x11223344 + base)\<rparr>"

definition overlay_one_rebase :: LazyRebasedReader where
  "overlay_one_rebase = \<lparr>baseAddr = 0x100000000, rebases = [(0x10, rebase_11223344)],
                          pointerSize = 8, byteOrder = LittleEndian\<rparr>"

text \<open>An underlying reader over an image whose bytes at \<open>0x10..0x17\<close> are the raw word of
  the rebase and whose other bytes are \<open>0xAA\<close>.\<close>

definition image_reader :: ReaderAt where
  "image_reader n off =
     (take n (drop (unat off)
        [0xAA, 0xAA, 0xAA, 0xAA, 0xAA, 0xAA, 0xAA, 0xAA, 0xAA, 0xAA, 0xAA, 0xAA, 0xAA, 0xAA, 0xAA, 0xAA,
         0x44, 0x33, 0x22, 0x11, 0, 0, 0, 0,
         0xAA, 0xAA, 0xAA, 0xAA, 0xAA, 0xAA, 0xAA, 0xAA]), None)"

section \<open>Properties of the query surface\<close>

lemmas format_defs =
  DYLD_CHAINED_PTR_ARM64E_def DYLD_CHAINED_PTR_64_def DYLD_CHAINED_PTR_32_def
  DYLD_CHAINED_PTR_32_CACHE_def DYLD_CHAINED_PTR_32_FIRMWARE_def DYLD_CHAINED_PTR_64_OFFSET_def
  DYLD_CHAINED_PTR_ARM64E_KERNEL_def DYLD_CHAINED_PTR_64_KERNEL_CACHE_def
  DYLD_CHAINED_PTR_ARM64E_USERLAND_def DYLD_CHAINED_PTR_ARM64E_FIRMWARE_def
  DYLD_CHAINED_PTR_X86_64_KERNEL_CACHE_def DYLD_CHAINED_PTR_ARM64E_USERLAND24_def

lemma import_ordinal_other:
  "PageCount s \<noteq> 0 \<longrightarrow> PointerFormat s \<noteq> DYLD_CHAINED_PTR_32 \<and> PointerFormat s \<noteq> DYLD_CHAINED_PTR_64
     \<and> PointerFormat s \<noteq> DYLD_CHAINED_PTR_ARM64E
   \<Longrightarrow> import_ordinal s pointer = None"
  by (simp add: import_ordinal_def)

lemma rebase_target_other:
  "PageCount s \<noteq> 0 \<longrightarrow> PointerFormat s \<noteq> DYLD_CHAINED_PTR_32 \<and> PointerFormat s \<noteq> DYLD_CHAINED_PTR_64
     \<and> PointerFormat s \<noteq> DYLD_CHAINED_PTR_ARM64E
   \<Longrightarrow> rebase_target s pla pointer = None"
  by (simp add: rebase_target_def)

lemma import_scan_other:
  "\<forall>s \<in> set ss. PageCount s \<noteq> 0 \<longrightarrow> PointerFormat s \<noteq> DYLD_CHAINED_PTR_32
       \<and> PointerFormat s \<noteq> DYLD_CHAINED_PTR_64 \<and> PointerFormat s \<noteq> DYLD_CHAINED_PTR_ARM64E
   \<Longrightarrow> import_scan imps ss pointer = Inl NotABindPointer"
  by (induction ss) (simp_all add: import_ordinal_other)

lemma rebase_scan_other:
  "\<forall>s \<in> set ss. PageCount s \<noteq> 0 \<longrightarrow> PointerFormat s \<noteq> DYLD_CHAINED_PTR_32
       \<and> PointerFormat s \<noteq> DYLD_CHAINED_PTR_64 \<and> PointerFormat s \<noteq> DYLD_CHAINED_PTR_ARM64E
   \<Longrightarrow> rebase_scan ss pla pointer = pointer"
  by (induction ss) (simp_all add: rebase_target_other)

text \<open>
  Claim C10.  \<open>GetImportForPointer\<close> and \<open>RebasePointer\<close> look only at segments of format
  PTR_32, PTR_64 or ARM64E: when every segment with a non-zero page count has another
  format, the first returns the not-a-bind error and the second returns the pointer
  unchanged, whatever the bits of the pointer are.
\<close>

theorem queries_inspect_three_formats_only:
  assumes "\<forall>s \<in> set (starts_list dcf). PageCount s \<noteq> 0 \<longrightarrow>
             PointerFormat s \<noteq> DYLD_CHAINED_PTR_32 \<and> PointerFormat s \<noteq> DYLD_CHAINED_PTR_64
             \<and> PointerFormat s \<noteq> DYLD_CHAINED_PTR_ARM64E"
  shows "GetImportForPointer dcf pointer = Inl NotABindPointer
         \<and> RebasePointer dcf preferredLoadAddress pointer = pointer"
  using assms
  by (simp add: GetImportForPointer_def RebasePointer_def import_scan_other rebase_scan_other)

theorem queries_inspect_three_formats_only_witness:
  "GetImportForPointer
      (dcf_of_segments [seg_of_format DYLD_CHAINED_PTR_64_OFFSET,
                        seg_of_format DYLD_CHAINED_PTR_ARM64E_USERLAND]
         [\<lparr>Name = [0x5F, 0x61], Import = DyldChainedImport 0\<rparr>] [])
      0x8000000000000000 = Inl NotABindPointer
   \<and> RebasePointer
      (dcf_of_segments [seg_of_format DYLD_CHAINED_PTR_64_OFFSET,
                        seg_of_format DYLD_CHAINED_PTR_ARM64E_USERLAND]
         [\<lparr>Name = [0x5F, 0x61], Import = DyldChainedImport 0\<rparr>] [])
      0x100000000 0x8000000000000000 = 0x8000000000000000"
  by (rule queries_inspect_three_formats_only)
     (simp add: dcf_of_segments_def seg_of_format_def starts_list_def format_defs)

text \<open>
  Claim C7, as the spec states it, fails: \<open>RebasePointer\<close> does not know the segment a
  pointer comes from and returns what the first segment with pages makes of it.  The slot
  of scenario S5 (\<open>bind = 0\<close>, \<open>auth = 1\<close>, \<open>target = 0x4000\<close>, \<open>key = 2\<close>, \<open>addr_div = 1\<close>,
  \<open>diversity = 0x1234\<close>) is an authenticated rebase for a segment of format ARM64E.  With
  a PTR_32 segment before the ARM64E segment the result is \<open>0x4000\<close>, the target that
  PTR_32 reads in the low word, and not \<open>0x100004000\<close>; with an ARM64E segment that has no
  pages the pointer comes back unchanged.
\<close>

theorem earlier_segment_answers_counterexample:
  "\<not> DcpArm64eIsBind 0x8005123400004000 \<and> DcpArm64eIsAuth 0x8005123400004000
   \<and> Arm64eAuthRebase_Target 0x8005123400004000 + 0x100000000 = 0x100004000
   \<and> RebasePointer
        (dcf_of_segments [seg_of_format DYLD_CHAINED_PTR_32, seg_of_format DYLD_CHAINED_PTR_ARM64E] [] [])
        0x100000000 0x8005123400004000 = 0x4000
   \<and> RebasePointer
        (dcf_of_segments [(seg_of_format DYLD_CHAINED_PTR_ARM64E)\<lparr>PageCount := 0\<rparr>] [] [])
        0x100000000 0x8005123400004000 = 0x8005123400004000"
  by (simp add: RebasePointer_def starts_list_def dcf_of_segments_def seg_of_format_def
        rebase_target_def format_defs DcpArm64eIsBind_def DcpArm64eIsAuth_def
        Arm64eAuthRebase_Target_def Generic32IsBind_def Ptr32Rebase_Target_def)

text \<open>
  Claim C7, amended.  When the scan of \<open>RebasePointer\<close> comes to a segment of format ARM64E
  with a non-zero page count and the pointer has the bind bit clear and the auth bit set,
  the result is the 32-bit target field of the slot plus the preferred load address.  The
  scan comes to that segment when no earlier segment with pages has the format PTR_32 and
  finds bit 31 of the low word of the pointer clear, which it takes for a rebase; earlier
  PTR_64 segments read the auth bit as their bind bit and pass, earlier ARM64E segments
  return the same value.  The slot \<open>bind = 0\<close>, \<open>auth = 1\<close>, \<open>target = 0x4000\<close>, \<open>key = 2\<close>,
  \<open>addr_div = 1\<close>, \<open>diversity = 0x1234\<close> resolves to \<open>0x100004000\<close> for the preferred load
  address \<open>0x100000000\<close>.
\<close>

theorem RebasePointer_arm64e_auth_rebase:
  assumes "starts_list dcf = pre @ s # post"
    and "\<forall>t \<in> set pre. PageCount t = 0 \<or> PointerFormat t \<noteq> DYLD_CHAINED_PTR_32
            \<or> Generic32IsBind (ucast pointer)"
    and "PageCount s \<noteq> 0" and "PointerFormat s = DYLD_CHAINED_PTR_ARM64E"
    and "\<not> DcpArm64eIsBind pointer" and "DcpArm64eIsAuth pointer"
  shows "RebasePointer dcf preferredLoadAddress pointer
           = Arm64eAuthRebase_Target pointer + preferredLoadAddress"
proof -
  have here: "rebase_target s preferredLoadAddress pointer
                = Some (Arm64eAuthRebase_Target pointer + preferredLoadAddress)"
    using assms(3-6) by (simp add: rebase_target_def format_defs)
  have "rebase_scan (pre @ s # post) preferredLoadAddress pointer
          = Arm64eAuthRebase_Target pointer + preferredLoadAddress"
    using assms(2)
  proof (induction pre)
    case Nil
    show ?case using here by simp
  next
    case (Cons t pre)
    have "rebase_target t preferredLoadAddress pointer = None
          \<or> rebase_target t preferredLoadAddress pointer
               = Some (Arm64eAuthRebase_Target pointer + preferredLoadAddress)"
      using Cons.prems assms(5,6)
      by (auto simp add: rebase_target_def Generic64IsBind_def DcpArm64eIsAuth_def Let_def)
    with Cons show ?case by auto
  qed
  then show ?thesis by (simp add: RebasePointer_def assms(1))
qed

theorem RebasePointer_arm64e_auth_rebase_witness:
  "RebasePointer (dcf_of_segments [seg_of_format DYLD_CHAINED_PTR_ARM64E] [] [])
      0x100000000 0x8005123400004000 = 0x100004000"
proof -
  have "RebasePointer (dcf_of_segments [seg_of_format DYLD_CHAINED_PTR_ARM64E] [] [])
      0x100000000 0x8005123400004000 = Arm64eAuthRebase_Target 0x8005123400004000 + 0x100000000"
    by (rule RebasePointer_arm64e_auth_rebase [where pre = "[]" and post = "[]"
              and s = "seg_of_format DYLD_CHAINED_PTR_ARM64E"])
       (simp_all add: dcf_of_segments_def seg_of_format_def starts_list_def
          DcpArm64eIsBind_def DcpArm64eIsAuth_def)
  then show ?thesis by (simp add: Arm64eAuthRebase_Target_def)
qed

section \<open>Properties of the chain walker\<close>

lemma ucast_32_64_32 [simp]: "(ucast (ucast (p :: u32) :: u64) :: u32) = p"
  by (simp add: ucast_up_ucast_id is_up)

lemma bind_import_Inr:
  "bind_import imps ordinal mk = Inr f \<Longrightarrow> \<exists>n. f = mk n"
  by (auto simp add: bind_import_def split: if_splits)

lemma arm64e_fixup_Inr:
  "arm64e_fixup imps loc p = Inr f \<Longrightarrow> fixup_location f = loc \<and> fixup_raw f = p"
  by (auto simp add: arm64e_fixup_def split: if_splits dest!: bind_import_Inr)

lemma arm64e24_fixup_Inr:
  "arm64e24_fixup imps loc p = Inr f \<Longrightarrow> fixup_location f = loc \<and> fixup_raw f = p"
  by (auto simp add: arm64e24_fixup_def split: if_splits dest!: bind_import_Inr)

lemma Seek_data [simp]: "data (Seek rd off) = data rd"
  by (simp add: Seek_def)

text \<open>A read behind a seek, stated on the bytes of the reader.\<close>

lemma Read_u32_at:
  "Read_u32 bo (Seek rd loc) =
     (let p = (if sint loc < 0 then pos rd else unat loc)
      in if p + 4 \<le> length (data rd)
         then Inr (Uint bo (take 4 (drop p (data rd))), rd\<lparr>pos := p + 4\<rparr>)
         else Inl (if length (data rd) \<le> p then EOF else ErrUnexpectedEOF))"
  by (auto simp add: Read_u32_def ReadFull_def Seek_def Let_def)

lemma Read_u64_at:
  "Read_u64 bo (Seek rd loc) =
     (let p = (if sint loc < 0 then pos rd else unat loc)
      in if p + 8 \<le> length (data rd)
         then Inr (Uint bo (take 8 (drop p (data rd))), rd\<lparr>pos := p + 8\<rparr>)
         else Inl (if length (data rd) \<le> p then EOF else ErrUnexpectedEOF))"
  by (auto simp add: Read_u64_def ReadFull_def Seek_def Let_def)

text \<open>One iteration of the loop is the visit of the location \<open>pageContentStart +
  offsetInPage + next\<close>: the twelve cases of the switch, one by one.\<close>

lemma walk_body_eq:
  assumes "seg_at dcf segIdx = Inr seg"
  shows "walk_body dcf segIdx pcs oip nxt =
     (case visit (order dcf) (data (image dcf)) (Imports dcf) (PointerFormat seg)
             (pcs + ucast oip + nxt) (pos (image dcf)) of
        Inl e \<Rightarrow> Inl e
      | Inr (f, nx, c) \<Rightarrow>
          Inr (append_fixup (dcf\<lparr>image := (image dcf)\<lparr>pos := c\<rparr>\<rparr>) segIdx f, nx = 0,
               nxt + nx * stride (PointerFormat seg)))"
proof -
  let ?fmt = "PointerFormat seg"
  consider (p32) "?fmt = DYLD_CHAINED_PTR_32" | (p32c) "?fmt = DYLD_CHAINED_PTR_32_CACHE"
    | (p32f) "?fmt = DYLD_CHAINED_PTR_32_FIRMWARE" | (p64) "?fmt = DYLD_CHAINED_PTR_64"
    | (p64o) "?fmt = DYLD_CHAINED_PTR_64_OFFSET" | (p64k) "?fmt = DYLD_CHAINED_PTR_64_KERNEL_CACHE"
    | (x86k) "?fmt = DYLD_CHAINED_PTR_X86_64_KERNEL_CACHE" | (a64k) "?fmt = DYLD_CHAINED_PTR_ARM64E_KERNEL"
    | (a64f) "?fmt = DYLD_CHAINED_PTR_ARM64E_FIRMWARE" | (a64) "?fmt = DYLD_CHAINED_PTR_ARM64E"
    | (a64u) "?fmt = DYLD_CHAINED_PTR_ARM64E_USERLAND" | (a6424) "?fmt = DYLD_CHAINED_PTR_ARM64E_USERLAND24"
    | (other) "\<not> known_format ?fmt"
    unfolding known_format_def by blast
  then show ?thesis
  proof cases
    case other
    then show ?thesis
      using assms by (simp add: walk_body_def visit_def Let_def known_format_def)
  qed (use assms in \<open>simp_all add: walk_body_def visit_def Let_def known_format_def
         Read_u32_at Read_u64_at image_slot_def slot_width_def slot_next_def slot_record_def
         emit_def format_defs split: sum.splits\<close>)
qed

lemma append_fixup_with_fixups:
  "seg_at dcf segIdx = Inr seg \<Longrightarrow>
   append_fixup (dcf\<lparr>image := rd\<rparr>) segIdx f = with_fixups dcf segIdx seg [f] rd"
  by (auto simp add: seg_at_def append_fixup_def with_fixups_def split: option.splits if_splits)

lemma with_fixups_with_fixups:
  "seg_at dcf segIdx = Inr seg \<Longrightarrow>
   with_fixups (with_fixups dcf segIdx seg fs rd) segIdx (seg\<lparr>Fixups := Fixups seg @ fs\<rparr>) gs rd'
     = with_fixups dcf segIdx seg (fs @ gs) rd'"
  by (cases "Starts dcf") (auto simp add: seg_at_def with_fixups_def split: if_splits)

lemma seg_at_with_fixups:
  "seg_at dcf segIdx = Inr seg \<Longrightarrow>
   seg_at (with_fixups dcf segIdx seg fs rd) segIdx = Inr (seg\<lparr>Fixups := Fixups seg @ fs\<rparr>)"
  by (auto simp add: seg_at_def with_fixups_def split: option.splits if_splits)

lemma with_fixups_fields [simp]:
  "order (with_fixups dcf segIdx seg fs rd) = order dcf"
  "Imports (with_fixups dcf segIdx seg fs rd) = Imports dcf"
  "image (with_fixups dcf segIdx seg fs rd) = rd"
  by (simp_all add: with_fixups_def)



text \<open>Evaluation of the readers on byte lists.\<close>

lemma chunks_numeral:
  "chunks w (numeral k) bs = take w bs # chunks w (pred_numeral k) (drop w bs)"
  by (simp add: numeral_eq_Suc)

lemma chunks_1: "chunks w 1 bs = [take w bs]"
  by (simp add: numeral_eq_Suc)

lemmas eval_defs = ReadFull_def Read_slice_def Read_u32_def Read_u64_def Uint_def le_word_def
  Seek_def chunks_numeral chunks_1

lemmas walk_defs = walk_body_def seg_at_def emit_def bind_import_def append_fixup_def
   Generic64IsBind_def Generic64Next_def Ptr64Bind_Ordinal_def stride_def
   Generic32IsBind_def Generic32Next_def Ptr32Bind_Ordinal_def




lemma stride_cases: "stride fmt = 8 \<or> stride fmt = 4 \<or> stride fmt = 1"
  by (simp add: stride_def)

lemma unat_multiple_of_stride: "unat (k * stride fmt) mod unat (stride fmt) = 0"
proof -
  have "unat (k * 8 :: u64) mod 8 = 0"
    by (simp add: unat_word_ariths mod_mod_cancel)
  moreover have "unat (k * 4 :: u64) mod 4 = 0"
    by (simp add: unat_word_ariths mod_mod_cancel)
  ultimately show ?thesis
    using stride_cases [of fmt] by auto
qed

text \<open>The states of the loop: what every iteration keeps, and how the states relate to
  the result of the walk.\<close>

lemma slot_record_location: "slot_record imps fmt loc raw = Inr f \<Longrightarrow> fixup_location f = loc"
  by (auto simp add: slot_record_def split: if_splits
        dest!: bind_import_Inr arm64e_fixup_Inr arm64e24_fixup_Inr)

lemma visit_Inr:
  "visit bo img imps fmt loc cursor = Inr (f, nx, c) \<Longrightarrow>
     fixup_location f = loc
     \<and> (0 \<le> sint loc \<longrightarrow> unat loc + slot_width fmt \<le> length img)"
  by (auto simp add: visit_def Let_def image_slot_def
        split: if_splits option.splits sum.splits dest: slot_record_location)

lemma visit_out_of_image:
  "0 \<le> sint loc \<Longrightarrow> length img < unat loc + slot_width fmt \<Longrightarrow>
   visit bo img imps fmt loc cursor
     = Inl (Error (if known_format fmt
                   then (if length img \<le> unat loc then EOF else ErrUnexpectedEOF)
                   else UnknownPointerFormat fmt))"
  by (simp add: visit_def image_slot_def)

lemma with_fixups_Nil:
  "seg_at dcf segIdx = Inr seg \<Longrightarrow> with_fixups dcf segIdx seg [] (image dcf) = dcf"
  by (cases "Starts dcf") (auto simp add: seg_at_def with_fixups_def split: if_splits)

lemma walk_iterations_Suc:
  "walk_iterations (Suc k) dcf segIdx pcs oip = Inr (d, ce, n) \<Longrightarrow>
   \<exists>d0 ce0 n0. walk_iterations k dcf segIdx pcs oip = Inr (d0, ce0, n0)
      \<and> (ce0 \<longrightarrow> (d, ce, n) = (d0, ce0, n0))
      \<and> (\<not> ce0 \<longrightarrow> walk_body d0 segIdx pcs oip n0 = Inr (d, ce, n))"
  by (auto split: sum.splits if_splits)

lemma walk_iterations_invariant:
  assumes seg: "seg_at dcf segIdx = Inr seg"
  shows "walk_iterations k dcf segIdx pcs oip = Inr (d, ce, n) \<Longrightarrow>
     \<exists>fs rd j. d = with_fixups dcf segIdx seg fs rd \<and> data rd = data (image dcf)
       \<and> n = j * stride (PointerFormat seg)
       \<and> (\<forall>f \<in> set fs.
             (\<exists>i. fixup_location f = pcs + ucast oip + i * stride (PointerFormat seg))
             \<and> (0 \<le> sint (fixup_location f) \<longrightarrow>
                  unat (fixup_location f) + slot_width (PointerFormat seg)
                    \<le> length (data (image dcf))))"
proof (induction k arbitrary: d ce n)
  case 0
  then have "d = with_fixups dcf segIdx seg [] (image dcf)" "n = 0 * stride (PointerFormat seg)"
    using with_fixups_Nil [OF seg] by simp_all
  then show ?case
    by (intro exI [of _ "[]"] exI [of _ "image dcf"] exI [of _ 0]) simp
next
  case (Suc k)
  let ?fmt = "PointerFormat seg"
  from walk_iterations_Suc [OF Suc.prems] obtain d0 ce0 n0 where
    prev: "walk_iterations k dcf segIdx pcs oip = Inr (d0, ce0, n0)"
    and same: "ce0 \<Longrightarrow> (d, ce, n) = (d0, ce0, n0)"
    and body: "\<not> ce0 \<Longrightarrow> walk_body d0 segIdx pcs oip n0 = Inr (d, ce, n)"
    by blast
  from Suc.IH [OF prev] obtain fs rd j where
    d0: "d0 = with_fixups dcf segIdx seg fs rd" and rd: "data rd = data (image dcf)"
    and n0: "n0 = j * stride ?fmt"
    and inv: "\<forall>f \<in> set fs.
             (\<exists>i. fixup_location f = pcs + ucast oip + i * stride ?fmt)
             \<and> (0 \<le> sint (fixup_location f) \<longrightarrow>
                  unat (fixup_location f) + slot_width ?fmt \<le> length (data (image dcf)))"
    by blast
  show ?case
  proof (cases ce0)
    case True
    with same d0 rd n0 inv show ?thesis by blast
  next
    case False
    let ?seg0 = "seg\<lparr>Fixups := Fixups seg @ fs\<rparr>"
    have seg0: "seg_at d0 segIdx = Inr ?seg0"
      using d0 seg_at_with_fixups [OF seg] by simp
    from body [OF False] obtain f nx c where
      v: "visit (order d0) (data (image d0)) (Imports d0) ?fmt (pcs + ucast oip + n0) (pos (image d0))
            = Inr (f, nx, c)"
      and d: "d = append_fixup (d0\<lparr>image := (image d0)\<lparr>pos := c\<rparr>\<rparr>) segIdx f"
      and n: "n = n0 + nx * stride ?fmt"
      by (auto simp add: walk_body_eq [OF seg0] split: sum.splits)
    have d': "d = with_fixups dcf segIdx seg (fs @ [f]) (rd\<lparr>pos := c\<rparr>)"
      using d d0 append_fixup_with_fixups [OF seg0] with_fixups_with_fixups [OF seg] by simp
    from visit_Inr [OF v] d0 rd have
      loc: "fixup_location f = pcs + ucast oip + j * stride ?fmt"
      and img: "0 \<le> sint (fixup_location f) \<longrightarrow>
                  unat (fixup_location f) + slot_width ?fmt \<le> length (data (image dcf))"
      by (simp_all add: n0)
    have n': "n = (j + nx) * stride ?fmt"
      using n n0 by (simp add: algebra_simps)
    from loc have "\<exists>i. fixup_location f = pcs + ucast oip + i * stride ?fmt" by blast
    with inv img have "\<forall>g \<in> set (fs @ [f]).
             (\<exists>i. fixup_location g = pcs + ucast oip + i * stride ?fmt)
             \<and> (0 \<le> sint (fixup_location g) \<longrightarrow>
                  unat (fixup_location g) + slot_width ?fmt \<le> length (data (image dcf)))"
      by auto
    with d' n' rd show ?thesis
      by (intro exI [of _ "fs @ [f]"] exI [of _ "rd\<lparr>pos := c\<rparr>"] exI [of _ "j + nx"]) simp
  qed
qed

lemma walk_loop_from_iterations:
  "walk_iterations k dcf segIdx pcs oip = Inr (d, False, n) \<Longrightarrow>
   walk_loop d segIdx pcs oip n = walk_loop dcf segIdx pcs oip 0"
proof (induction k arbitrary: d n)
  case 0
  then show ?case by simp
next
  case (Suc k)
  from walk_iterations_Suc [OF Suc.prems] obtain d0 ce0 n0 where
    prev: "walk_iterations k dcf segIdx pcs oip = Inr (d0, ce0, n0)"
    and same: "ce0 \<Longrightarrow> (d, False, n) = (d0, ce0, n0)"
    and body: "\<not> ce0 \<Longrightarrow> walk_body d0 segIdx pcs oip n0 = Inr (d, False, n)"
    by blast
  from same have ce0: "\<not> ce0" by auto
  have "walk_loop d0 segIdx pcs oip n0 = walk_loop d segIdx pcs oip n"
    using body [OF ce0] by (subst walk_loop.simps) simp
  moreover from prev ce0 have "walk_loop d0 segIdx pcs oip n0 = walk_loop dcf segIdx pcs oip 0"
    by (intro Suc.IH) simp
  ultimately show ?case by simp
qed

lemma walk_iterations_end:
  "walk_iterations k dcf segIdx pcs oip = Inr (d, True, n) \<Longrightarrow>
   walk_loop dcf segIdx pcs oip 0 = Some (Inr d)"
proof (induction k arbitrary: d n)
  case 0
  then show ?case by simp
next
  case (Suc k)
  from walk_iterations_Suc [OF Suc.prems] obtain d0 ce0 n0 where
    prev: "walk_iterations k dcf segIdx pcs oip = Inr (d0, ce0, n0)"
    and same: "ce0 \<Longrightarrow> (d, True, n) = (d0, ce0, n0)"
    and body: "\<not> ce0 \<Longrightarrow> walk_body d0 segIdx pcs oip n0 = Inr (d, True, n)"
    by blast
  show ?case
  proof (cases ce0)
    case True
    with same prev have "walk_iterations k dcf segIdx pcs oip = Inr (d, True, n)" by simp
    then show ?thesis by (rule Suc.IH)
  next
    case False
    have "walk_loop d0 segIdx pcs oip n0 = Some (Inr d)"
      using body [OF False] by (subst walk_loop.simps) simp
    moreover from prev False have "walk_loop d0 segIdx pcs oip n0 = walk_loop dcf segIdx pcs oip 0"
      by (intro walk_loop_from_iterations) simp
    ultimately show ?thesis by simp
  qed
qed

lemma walk_loop_reaches_end:
  assumes "walk_loop d segIdx pcs oip n = Some (Inr dcf')"
    and "walk_iterations k dcf segIdx pcs oip = Inr (d, False, n)"
  shows "\<exists>k' n'. walk_iterations k' dcf segIdx pcs oip = Inr (dcf', True, n')"
proof -
  define P where "P = (\<lambda>d segIdx pcs (oip :: u16) n (y :: failure + DyldChainedFixups).
     \<forall>dcf' k dcf. y = Inr dcf' \<longrightarrow> walk_iterations k dcf segIdx pcs oip = Inr (d, False, n) \<longrightarrow>
       (\<exists>k' n'. walk_iterations k' dcf segIdx pcs oip = Inr (dcf', True, n')))"
  have "P d segIdx pcs oip n (Inr dcf')"
  proof (rule walk_loop.raw_induct [where P = P, OF _ assms(1)])
    fix wl d segIdx pcs and oip :: u16 and n y
    assume IH: "\<And>a b c d e z. wl a b c d e = Some z \<Longrightarrow> P a b c d e z"
      and unfolded: "(case walk_body d segIdx pcs oip n of
                   Inl e \<Rightarrow> Some (Inl e)
                 | Inr (dcf', chainEnd, next') \<Rightarrow>
                     if chainEnd then Some (Inr dcf') else wl dcf' segIdx pcs oip next') = Some y"
    show "P d segIdx pcs oip n y"
      unfolding P_def
    proof (intro allI impI)
      fix dcf' k dcf
      assume y: "y = Inr dcf'"
        and st: "walk_iterations k dcf segIdx pcs oip = Inr (d, False, n)"
      from unfolded y obtain d1 ce n1 where
        body: "walk_body d segIdx pcs oip n = Inr (d1, ce, n1)"
        and rest: "(if ce then Some (Inr d1) else wl d1 segIdx pcs oip n1) = Some (Inr dcf')"
        by (auto split: sum.splits prod.splits)
      from st body have st1: "walk_iterations (Suc k) dcf segIdx pcs oip = Inr (d1, ce, n1)"
        by simp
      show "\<exists>k' n'. walk_iterations k' dcf segIdx pcs oip = Inr (dcf', True, n')"
      proof (cases ce)
        case True
        with rest have "d1 = dcf'" by simp
        with st1 True have "walk_iterations (Suc k) dcf segIdx pcs oip = Inr (dcf', True, n1)"
          by (simp del: walk_iterations.simps)
        then show ?thesis by blast
      next
        case False
        with rest have call: "wl d1 segIdx pcs oip n1 = Some (Inr dcf')" by simp
        from False st1 have "walk_iterations (Suc k) dcf segIdx pcs oip = Inr (d1, False, n1)"
          by (simp del: walk_iterations.simps)
        with IH [OF call] show ?thesis
          unfolding P_def by blast
      qed
    qed
  qed
  then show ?thesis
    using assms(2) unfolding P_def by blast
qed

lemmas parse_defs = Parse_def ParseStarts_def NewChainedFixups_def Read_header_def
        Read_starts_in_segment_def parseImports_def read_imports_def starts_list_def
        DC_IMPORT_def DC_IMPORT_ADDEND_def DC_IMPORT_ADDEND64_def ReadString_def Trim_NUL_def
        walk_page_def walkDcFixupChain_def seg_at_def
        DYLD_CHAINED_PTR_START_NONE_def DYLD_CHAINED_PTR_START_MULTI_def DYLD_CHAINED_PTR_START_LAST_def

text \<open>
  Claim C2, as the spec states it, fails: \<open>Parse\<close> compares no location with the size of the
  segment and does not ask a chain head to be aligned.  Here a segment at offset 0 of size
  8 has the page start 1.  The chain head at location 1 lies in the segment, not at a
  multiple of the stride 4; its slot has the next field 2, an advance of 8 bytes that
  leaves the segment.  \<open>Parse\<close> raises no error and goes on to emit the record at
  location 9, outside the segment.
\<close>

theorem chain_leaves_segment_counterexample:
  "Parse (NewChainedFixups payload_escape image_escape LittleEndian)
    = Some (Inr
         \<lparr>Header = \<lparr>FixupsVersion = 0, StartsOffset = 28, ImportsOffset = 60, SymbolsOffset = 60,
                ImportsCount = 0, ImportsFormat = 1, SymbolsFormat = 0\<rparr>,
          Starts = Some [seg_escape],
          Imports = [],
          lcdat = \<lparr>data = payload_escape, pos = 60\<rparr>,
          image = \<lparr>data = image_escape, pos = 17\<rparr>, order = LittleEndian\<rparr>)
   \<and> within_segment seg_escape (DyldChainedPtr64Rebase 0x0010000000002000 1)
   \<and> \<not> stride_aligned seg_escape (DyldChainedPtr64Rebase 0x0010000000002000 1)
   \<and> \<not> within_segment seg_escape (DyldChainedPtr64Rebase 0x3000 9)"
proof -
  have "Parse (NewChainedFixups payload_escape image_escape LittleEndian)
    = Some (Inr
         \<lparr>Header = \<lparr>FixupsVersion = 0, StartsOffset = 28, ImportsOffset = 60, SymbolsOffset = 60,
                ImportsCount = 0, ImportsFormat = 1, SymbolsFormat = 0\<rparr>,
          Starts = Some [seg_escape],
          Imports = [],
          lcdat = \<lparr>data = payload_escape, pos = 60\<rparr>,
          image = \<lparr>data = image_escape, pos = 17\<rparr>, order = LittleEndian\<rparr>)"
    apply (simp add: parse_defs eval_defs payload_escape_def image_escape_def seg_escape_def)
    apply (subst walk_loop.simps)
    apply (simp add: walk_defs format_defs eval_defs)
    apply (subst walk_loop.simps)
    apply (simp add: walk_defs format_defs eval_defs)
    done
  moreover have "within_segment seg_escape (DyldChainedPtr64Rebase 0x0010000000002000 1)"
    by (simp add: within_segment_def seg_escape_def)
  moreover have "\<not> stride_aligned seg_escape (DyldChainedPtr64Rebase 0x0010000000002000 1)"
    by (simp add: stride_aligned_def seg_escape_def stride_def format_defs)
  moreover have "\<not> within_segment seg_escape (DyldChainedPtr64Rebase 0x3000 9)"
    by (simp add: within_segment_def seg_escape_def)
  ultimately show ?thesis by simp
qed

text \<open>
  Claim C2, amended.  For every record that a chain walk of \<open>Parse\<close> has appended after
  any number of iterations, whether or not the walk goes on to return, the distance of its
  location from the chain head (segment offset plus page index times page size plus offset
  in page) is a multiple of the stride of the format, and its slot lies within the image
  when its location is a valid \<open>int64\<close> offset.  A walk whose loop ends returns the
  aggregate with these records, and every aggregate a walk returns is reached in this way.
  An advance to a valid offset whose slot does not lie within the image makes the walk
  return an error and emit no further record: \<open>EOF\<close> when the offset is at or behind the
  end of the image, the unexpected \<open>EOF\<close> when the image ends inside the slot (for a chain
  head in a segment whose format is none of the twelve, the unknown-format error comes
  first).  The walk has no check against the segment's size or for the alignment of the
  chain head.
\<close>

theorem chain_locations_by_design:
  assumes "seg_at dcf segIdx = Inr seg"
  shows "(walk_iterations k dcf segIdx
             (SegmentOffset seg + ucast pageIndex * ucast (PageSize seg)) offsetInPage
            = Inr (d, chainEnd, nxt) \<longrightarrow>
            (\<exists>fs. seg_at d segIdx = Inr (seg\<lparr>Fixups := Fixups seg @ fs\<rparr>)
               \<and> (\<forall>f \<in> set fs.
                     unat (fixup_location f
                            - (SegmentOffset seg + ucast pageIndex * ucast (PageSize seg)
                               + ucast offsetInPage))
                       mod unat (stride (PointerFormat seg)) = 0
                     \<and> (0 \<le> sint (fixup_location f) \<longrightarrow>
                          unat (fixup_location f) + slot_width (PointerFormat seg)
                            \<le> length (data (image dcf)))))
            \<and> (chainEnd \<longrightarrow> walkDcFixupChain dcf segIdx pageIndex offsetInPage = Some (Inr d))
            \<and> (\<not> chainEnd
                 \<and> 0 \<le> sint (SegmentOffset seg + ucast pageIndex * ucast (PageSize seg)
                               + ucast offsetInPage + nxt)
                 \<and> length (data (image dcf))
                      < unat (SegmentOffset seg + ucast pageIndex * ucast (PageSize seg)
                               + ucast offsetInPage + nxt) + slot_width (PointerFormat seg) \<longrightarrow>
                walkDcFixupChain dcf segIdx pageIndex offsetInPage
                  = Some (Inl (Error
                      (if known_format (PointerFormat seg)
                       then (if length (data (image dcf))
                                  \<le> unat (SegmentOffset seg + ucast pageIndex * ucast (PageSize seg)
                                           + ucast offsetInPage + nxt)
                             then EOF else ErrUnexpectedEOF)
                       else UnknownPointerFormat (PointerFormat seg))))))
       \<and> (walkDcFixupChain dcf segIdx pageIndex offsetInPage = Some (Inr dcf') \<longrightarrow>
            (\<exists>k' nxt'. walk_iterations k' dcf segIdx
                          (SegmentOffset seg + ucast pageIndex * ucast (PageSize seg)) offsetInPage
                        = Inr (dcf', True, nxt')))"
proof -
  let ?pcs = "SegmentOffset seg + ucast pageIndex * ucast (PageSize seg)"
  let ?fmt = "PointerFormat seg"
  let ?len = "length (data (image dcf))"
  have w: "walkDcFixupChain dcf segIdx pageIndex offsetInPage
             = walk_loop dcf segIdx ?pcs offsetInPage 0"
    using assms by (simp add: walkDcFixupChain_def Let_def)
  have a: "\<exists>fs. seg_at d segIdx = Inr (seg\<lparr>Fixups := Fixups seg @ fs\<rparr>)
               \<and> (\<forall>f \<in> set fs.
                     unat (fixup_location f - (?pcs + ucast offsetInPage)) mod unat (stride ?fmt) = 0
                     \<and> (0 \<le> sint (fixup_location f) \<longrightarrow>
                          unat (fixup_location f) + slot_width ?fmt \<le> ?len))"
    if st: "walk_iterations k dcf segIdx ?pcs offsetInPage = Inr (d, chainEnd, nxt)"
  proof -
    from walk_iterations_invariant [OF assms st] obtain fs rd where
      d: "d = with_fixups dcf segIdx seg fs rd"
      and inv: "\<forall>f \<in> set fs.
             (\<exists>i. fixup_location f = ?pcs + ucast offsetInPage + i * stride ?fmt)
             \<and> (0 \<le> sint (fixup_location f) \<longrightarrow> unat (fixup_location f) + slot_width ?fmt \<le> ?len)"
      by blast
    have "\<forall>f \<in> set fs.
            unat (fixup_location f - (?pcs + ucast offsetInPage)) mod unat (stride ?fmt) = 0
            \<and> (0 \<le> sint (fixup_location f) \<longrightarrow> unat (fixup_location f) + slot_width ?fmt \<le> ?len)"
    proof
      fix f
      assume "f \<in> set fs"
      with inv obtain i where
        "fixup_location f = ?pcs + ucast offsetInPage + i * stride ?fmt"
        and im: "0 \<le> sint (fixup_location f) \<longrightarrow> unat (fixup_location f) + slot_width ?fmt \<le> ?len"
        by blast
      then have "fixup_location f - (?pcs + ucast offsetInPage) = i * stride ?fmt" by simp
      then have "unat (fixup_location f - (?pcs + ucast offsetInPage)) mod unat (stride ?fmt) = 0"
        by (simp add: unat_multiple_of_stride)
      with im show "unat (fixup_location f - (?pcs + ucast offsetInPage)) mod unat (stride ?fmt) = 0
            \<and> (0 \<le> sint (fixup_location f) \<longrightarrow> unat (fixup_location f) + slot_width ?fmt \<le> ?len)"
        by simp
    qed
    with d show ?thesis
      using seg_at_with_fixups [OF assms] by (intro exI [of _ fs]) simp
  qed
  have b: "walkDcFixupChain dcf segIdx pageIndex offsetInPage = Some (Inr d)"
    if "walk_iterations k dcf segIdx ?pcs offsetInPage = Inr (d, chainEnd, nxt)" and chainEnd
    using that walk_iterations_end [of k dcf segIdx ?pcs offsetInPage d nxt] w by simp
  have c: "walkDcFixupChain dcf segIdx pageIndex offsetInPage
             = Some (Inl (Error
                      (if known_format ?fmt
                       then (if ?len \<le> unat (?pcs + ucast offsetInPage + nxt)
                             then EOF else ErrUnexpectedEOF)
                       else UnknownPointerFormat ?fmt)))"
    if st: "walk_iterations k dcf segIdx ?pcs offsetInPage = Inr (d, chainEnd, nxt)"
      and ce: "\<not> chainEnd" and nonneg: "0 \<le> sint (?pcs + ucast offsetInPage + nxt)"
      and out: "?len < unat (?pcs + ucast offsetInPage + nxt) + slot_width ?fmt"
  proof -
    from walk_iterations_invariant [OF assms st] obtain fs rd where
      d: "d = with_fixups dcf segIdx seg fs rd" and rd: "data rd = data (image dcf)"
      by blast
    have segd: "seg_at d segIdx = Inr (seg\<lparr>Fixups := Fixups seg @ fs\<rparr>)"
      using d seg_at_with_fixups [OF assms] by simp
    have flds: "order d = order dcf" "Imports d = Imports dcf" "data (image d) = data (image dcf)"
      using d rd by simp_all
    have "walk_body d segIdx ?pcs offsetInPage nxt
            = Inl (Error (if known_format ?fmt
                       then (if ?len \<le> unat (?pcs + ucast offsetInPage + nxt)
                             then EOF else ErrUnexpectedEOF)
                       else UnknownPointerFormat ?fmt))"
      using visit_out_of_image [OF nonneg out, of "order dcf" "Imports dcf" "pos (image d)"]
      by (simp add: walk_body_eq [OF segd] flds)
    then have "walk_loop d segIdx ?pcs offsetInPage nxt
            = Some (Inl (Error (if known_format ?fmt
                       then (if ?len \<le> unat (?pcs + ucast offsetInPage + nxt)
                             then EOF else ErrUnexpectedEOF)
                       else UnknownPointerFormat ?fmt)))"
      by (subst walk_loop.simps) simp
    moreover from st ce have "walk_loop d segIdx ?pcs offsetInPage nxt
                                = walk_loop dcf segIdx ?pcs offsetInPage 0"
      by (intro walk_loop_from_iterations) simp
    ultimately show ?thesis using w by simp
  qed
  have e: "\<exists>k' nxt'. walk_iterations k' dcf segIdx ?pcs offsetInPage = Inr (dcf', True, nxt')"
    if "walkDcFixupChain dcf segIdx pageIndex offsetInPage = Some (Inr dcf')"
  proof -
    from that w have "walk_loop dcf segIdx ?pcs offsetInPage 0 = Some (Inr dcf')" by simp
    then show ?thesis
      by (rule walk_loop_reaches_end [where k = 0]) simp
  qed
  from a b c e show ?thesis by blast
qed

lemma walk_iterations_s2:
  "walk_iterations (Suc (Suc 0)) (dcf_of_segments [seg_s2] [] image_s2) 0 0x1000 4
     = Inr ((dcf_of_segments
        [seg_s2\<lparr>Fixups := [DyldChainedPtr32Rebase 0x04000100 0x1004,
                            DyldChainedPtr32Rebase 0x200 0x1008]\<rparr>] [] image_s2)
         \<lparr>image := \<lparr>data = image_s2, pos = 0x100C\<rparr>\<rparr>, True, 4)"
  by (simp add: walk_defs format_defs eval_defs dcf_of_segments_def seg_s2_def image_s2_def)

lemma walk_iterations_s2_cut:
  "walk_iterations (Suc 0) (dcf_of_segments [seg_s2] [] image_s2_cut) 0 0x1000 4
     = Inr ((dcf_of_segments
        [seg_s2\<lparr>Fixups := [DyldChainedPtr32Rebase 0x04000100 0x1004]\<rparr>] [] image_s2_cut)
         \<lparr>image := \<lparr>data = image_s2_cut, pos = 0x1008\<rparr>\<rparr>, False, 4)"
  by (simp add: walk_defs format_defs eval_defs dcf_of_segments_def seg_s2_def image_s2_cut_def)

theorem chain_locations_by_design_witness:
  "unat (0x1004 - (0x1000 + 0 * 0x4000 + 4) :: u64) mod unat (stride DYLD_CHAINED_PTR_32) = 0
   \<and> unat (0x1008 - (0x1000 + 0 * 0x4000 + 4) :: u64) mod unat (stride DYLD_CHAINED_PTR_32) = 0
   \<and> unat (0x1004 :: u64) + slot_width DYLD_CHAINED_PTR_32 \<le> length image_s2
   \<and> unat (0x1008 :: u64) + slot_width DYLD_CHAINED_PTR_32 \<le> length image_s2
   \<and> walkDcFixupChain (dcf_of_segments [seg_s2] [] image_s2) 0 0 4 =
       Some (Inr ((dcf_of_segments
          [seg_s2\<lparr>Fixups := [DyldChainedPtr32Rebase 0x04000100 0x1004,
                              DyldChainedPtr32Rebase 0x200 0x1008]\<rparr>] [] image_s2)
           \<lparr>image := \<lparr>data = image_s2, pos = 0x100C\<rparr>\<rparr>))
   \<and> (\<exists>k nxt. walk_iterations k (dcf_of_segments [seg_s2] [] image_s2) 0 0x1000 4
         = Inr ((dcf_of_segments
          [seg_s2\<lparr>Fixups := [DyldChainedPtr32Rebase 0x04000100 0x1004,
                              DyldChainedPtr32Rebase 0x200 0x1008]\<rparr>] [] image_s2)
           \<lparr>image := \<lparr>data = image_s2, pos = 0x100C\<rparr>\<rparr>, True, nxt))
   \<and> walkDcFixupChain (dcf_of_segments [seg_s2] [] image_s2_cut) 0 0 4 = Some (Inl (Error EOF))"
proof -
  have seg: "seg_at (dcf_of_segments [seg_s2] [] img) 0 = Inr seg_s2" for img
    by (simp add: seg_at_def dcf_of_segments_def)
  let ?D = "dcf_of_segments [seg_s2] [] image_s2"
  let ?D2 = "(dcf_of_segments
          [seg_s2\<lparr>Fixups := [DyldChainedPtr32Rebase 0x04000100 0x1004,
                              DyldChainedPtr32Rebase 0x200 0x1008]\<rparr>] [] image_s2)
           \<lparr>image := \<lparr>data = image_s2, pos = 0x100C\<rparr>\<rparr>"
  let ?C = "dcf_of_segments [seg_s2] [] image_s2_cut"
  let ?C1 = "(dcf_of_segments
        [seg_s2\<lparr>Fixups := [DyldChainedPtr32Rebase 0x04000100 0x1004]\<rparr>] [] image_s2_cut)
         \<lparr>image := \<lparr>data = image_s2_cut, pos = 0x1008\<rparr>\<rparr>"
  have pcs: "SegmentOffset seg_s2 + ucast (0 :: u16) * ucast (PageSize seg_s2) = 0x1000"
    by (simp add: seg_s2_def)
  note full = chain_locations_by_design [OF seg, where img1 = image_s2 and k = "Suc (Suc 0)"
      and pageIndex = 0 and offsetInPage = 4 and d = ?D2 and chainEnd = True and nxt = 4
      and dcf' = ?D2, unfolded pcs]
  from full [THEN conjunct1, rule_format, OF walk_iterations_s2]
  have recs: "\<exists>fs. seg_at ?D2 0 = Inr (seg_s2\<lparr>Fixups := Fixups seg_s2 @ fs\<rparr>)
               \<and> (\<forall>f \<in> set fs.
                     unat (fixup_location f - (0x1000 + ucast (4 :: u16)))
                       mod unat (stride (PointerFormat seg_s2)) = 0
                     \<and> (0 \<le> sint (fixup_location f) \<longrightarrow>
                          unat (fixup_location f) + slot_width (PointerFormat seg_s2)
                            \<le> length (data (image ?D))))"
    and ret: "walkDcFixupChain ?D 0 0 4 = Some (Inr ?D2)"
    by simp_all
  from recs have a:
    "unat (0x1004 - (0x1000 + 0 * 0x4000 + 4) :: u64) mod unat (stride DYLD_CHAINED_PTR_32) = 0
   \<and> unat (0x1008 - (0x1000 + 0 * 0x4000 + 4) :: u64) mod unat (stride DYLD_CHAINED_PTR_32) = 0
   \<and> unat (0x1004 :: u64) + slot_width DYLD_CHAINED_PTR_32 \<le> length image_s2
   \<and> unat (0x1008 :: u64) + slot_width DYLD_CHAINED_PTR_32 \<le> length image_s2"
    by (simp add: seg_at_def dcf_of_segments_def seg_s2_def)
  from full [THEN conjunct2, rule_format, OF ret]
  have reach: "\<exists>k nxt. walk_iterations k ?D 0 0x1000 4 = Inr (?D2, True, nxt)" .
  note cut = chain_locations_by_design [OF seg, where img1 = image_s2_cut and k = "Suc 0"
      and pageIndex = 0 and offsetInPage = 4 and d = ?C1 and chainEnd = False and nxt = 4,
      unfolded pcs]
  from cut [THEN conjunct1, rule_format, OF walk_iterations_s2_cut]
  have "\<not> False \<and> (0::int) \<le> sint (0x1000 + ucast (4 :: u16) + 4 :: u64)
         \<and> length (data (image ?C))
              < unat (0x1000 + ucast (4 :: u16) + 4 :: u64) + slot_width (PointerFormat seg_s2)
        \<longrightarrow> walkDcFixupChain ?C 0 0 4
           = Some (Inl (Error
                (if known_format (PointerFormat seg_s2)
                 then (if length (data (image ?C)) \<le> unat (0x1000 + ucast (4 :: u16) + 4 :: u64)
                       then EOF else ErrUnexpectedEOF)
                 else UnknownPointerFormat (PointerFormat seg_s2))))"
    by simp
  then have c: "walkDcFixupChain ?C 0 0 4 = Some (Inl (Error EOF))"
    by (simp add: dcf_of_segments_def image_s2_cut_def slot_width_def seg_s2_def
          known_format_def format_defs)
  from a ret reach c show ?thesis by simp
qed

section \<open>Properties of Parse\<close>

text \<open>
  Claim C1 is not met by the code.  Scenario S6: with three imports and a PTR_64 bind slot
  of ordinal 5, \<open>walkDcFixupChain\<close> indexes \<open>dcf.Imports\<close> with the ordinal unchecked, and
  \<open>Parse\<close> ends in Go's index-out-of-range panic instead of returning an error.
\<close>

theorem Parse_ordinal_out_of_range_panics:
  "Parse (NewChainedFixups payload_s6 image_s6 LittleEndian)
     = Some (Inl (Panic (IndexOutOfRange 5 3)))"
  apply (simp add: parse_defs eval_defs payload_s6_def image_s6_def)
  apply (subst walk_loop.simps)
  apply (simp add: walk_defs format_defs eval_defs)
  done

text \<open>
  Claim C3 is not met by the code.  On a payload whose only symbol has no NUL,
  \<open>parseImports\<close> returns its error, but \<open>Parse\<close> calls it as a statement and drops the
  error: \<open>Parse\<close> succeeds with an empty list of imports.
\<close>

theorem Parse_drops_error_of_parseImports:
  "ParseStarts (NewChainedFixups payload_unterminated [] LittleEndian) = Inr parsed_unterminated
   \<and> fst (parseImports parsed_unterminated) = Some (FailedToReadString 36 EOF)
   \<and> Parse (NewChainedFixups payload_unterminated [] LittleEndian)
       = Some (Inr (parsed_unterminated\<lparr>lcdat := \<lparr>data = payload_unterminated, pos = 36\<rparr>\<rparr>))"
  by (simp add: parse_defs eval_defs payload_unterminated_def parsed_unterminated_def)

text \<open>
  Claim C4, as the spec states it, fails: no function reads \<open>SymbolsFormat\<close>.  A payload
  with \<open>symbols_format = 1\<close> is parsed, its symbol pool is read as raw bytes, and its bind
  slot gets the name \<open>_a\<close>.
\<close>

theorem symbols_format_1_counterexample:
  "Parse (NewChainedFixups payload_zlib image_zlib LittleEndian)
    = Some (Inr
         \<lparr>Header = \<lparr>FixupsVersion = 0, StartsOffset = 28, ImportsOffset = 60, SymbolsOffset = 64,
                ImportsCount = 1, ImportsFormat = 1, SymbolsFormat = 1\<rparr>,
          Starts = Some [\<lparr>Size = 0x4000, PageSize = 0x4000, PointerFormat = 2,
              SegmentOffset = 0, MaxValidPointer = 0, PageCount = 1, PageStarts = Some [0],
              Fixups = [DyldChainedPtr64Bind 0x8000000000000000 0 [0x5F, 0x61]]\<rparr>],
          Imports = [\<lparr>Name = [0x5F, 0x61], Import = DyldChainedImport 1\<rparr>],
          lcdat = \<lparr>data = payload_zlib, pos = 64\<rparr>,
          image = \<lparr>data = image_zlib, pos = 8\<rparr>, order = LittleEndian\<rparr>)"
  apply (simp add: parse_defs eval_defs payload_zlib_def image_zlib_def)
  apply (subst walk_loop.simps)
  apply (simp add: walk_defs format_defs eval_defs)
  done

text \<open>The field \<open>SymbolsFormat\<close> is read by no function: every step of \<open>Parse\<close> commutes
  with a change of its value.\<close>

lemma ssf_fields [simp]:
  "Starts (set_symbols_format v dcf) = Starts dcf"
  "Imports (set_symbols_format v dcf) = Imports dcf"
  "image (set_symbols_format v dcf) = image dcf"
  "lcdat (set_symbols_format v dcf) = lcdat dcf"
  "order (set_symbols_format v dcf) = order dcf"
  by (simp_all add: set_symbols_format_def)

lemma ssf_restore:
  "set_symbols_format (SymbolsFormat (Header dcf)) (set_symbols_format v dcf) = dcf"
  by (simp add: set_symbols_format_def)

lemma ssf_seg_at [simp]: "seg_at (set_symbols_format v dcf) segIdx = seg_at dcf segIdx"
  by (simp add: seg_at_def)

lemma ssf_append_fixup:
  "append_fixup ((set_symbols_format v dcf)\<lparr>image := rd\<rparr>) segIdx f
     = set_symbols_format v (append_fixup (dcf\<lparr>image := rd\<rparr>) segIdx f)"
  by (simp add: append_fixup_def set_symbols_format_def)

lemma ssf_emit:
  "emit ((set_symbols_format v dcf)\<lparr>image := rd\<rparr>) segIdx nxt strd n fx
     = (case emit (dcf\<lparr>image := rd\<rparr>) segIdx nxt strd n fx of
          Inl e \<Rightarrow> Inl e
        | Inr (d, c, m) \<Rightarrow> Inr (set_symbols_format v d, c, m))"
  by (simp add: emit_def ssf_append_fixup split: sum.splits)

lemma ssf_walk_body:
  "walk_body (set_symbols_format v dcf) segIdx pcs oip nxt
     = (case walk_body dcf segIdx pcs oip nxt of
          Inl e \<Rightarrow> Inl e
        | Inr (d, c, m) \<Rightarrow> Inr (set_symbols_format v d, c, m))"
proof (cases "seg_at dcf segIdx")
  case (Inl e)
  then show ?thesis by (simp add: walk_body_def)
next
  case (Inr seg)
  let ?fmt = "PointerFormat seg"
  consider
      (p32) "?fmt = DYLD_CHAINED_PTR_32"
    | (p32c) "?fmt = DYLD_CHAINED_PTR_32_CACHE"
    | (p32f) "?fmt = DYLD_CHAINED_PTR_32_FIRMWARE"
    | (p64) "?fmt = DYLD_CHAINED_PTR_64"
    | (p64o) "?fmt = DYLD_CHAINED_PTR_64_OFFSET"
    | (p64k) "?fmt = DYLD_CHAINED_PTR_64_KERNEL_CACHE"
    | (p64x) "?fmt = DYLD_CHAINED_PTR_X86_64_KERNEL_CACHE"
    | (armk) "?fmt = DYLD_CHAINED_PTR_ARM64E_KERNEL"
    | (armf) "?fmt = DYLD_CHAINED_PTR_ARM64E_FIRMWARE"
    | (arm) "?fmt = DYLD_CHAINED_PTR_ARM64E"
    | (armu) "?fmt = DYLD_CHAINED_PTR_ARM64E_USERLAND"
    | (arm24) "?fmt = DYLD_CHAINED_PTR_ARM64E_USERLAND24"
    | (other) "?fmt \<noteq> DYLD_CHAINED_PTR_32" "?fmt \<noteq> DYLD_CHAINED_PTR_32_CACHE"
        "?fmt \<noteq> DYLD_CHAINED_PTR_32_FIRMWARE" "?fmt \<noteq> DYLD_CHAINED_PTR_64"
        "?fmt \<noteq> DYLD_CHAINED_PTR_64_OFFSET" "?fmt \<noteq> DYLD_CHAINED_PTR_64_KERNEL_CACHE"
        "?fmt \<noteq> DYLD_CHAINED_PTR_X86_64_KERNEL_CACHE" "?fmt \<noteq> DYLD_CHAINED_PTR_ARM64E_KERNEL"
        "?fmt \<noteq> DYLD_CHAINED_PTR_ARM64E_FIRMWARE" "?fmt \<noteq> DYLD_CHAINED_PTR_ARM64E"
        "?fmt \<noteq> DYLD_CHAINED_PTR_ARM64E_USERLAND" "?fmt \<noteq> DYLD_CHAINED_PTR_ARM64E_USERLAND24"
    by blast
  then show ?thesis
    using Inr
    by cases (simp_all add: walk_body_def Let_def ssf_emit format_defs split: sum.splits)
qed

lemma ssf_walk_loop_Some:
  assumes "walk_loop dcf segIdx pcs oip nxt = Some y"
  shows "walk_loop (set_symbols_format v dcf) segIdx pcs oip nxt
           = Some (map_sum id (set_symbols_format v) y)"
proof -
  define P where "P = (\<lambda>dcf segIdx pcs (oip :: u16) nxt (y :: failure + DyldChainedFixups).
     walk_loop (set_symbols_format v dcf) segIdx pcs oip nxt
           = Some (map_sum id (set_symbols_format v) y))"
  have "P dcf segIdx pcs oip nxt y"
  proof (rule walk_loop.raw_induct [where P = P, OF _ assms])
    fix wl dcf segIdx pcs and oip :: u16 and nxt y
    assume IH: "\<And>a b c d e z. wl a b c d e = Some z \<Longrightarrow> P a b c d e z"
      and unfolded: "(case walk_body dcf segIdx pcs oip nxt of
                   Inl e \<Rightarrow> Some (Inl e)
                 | Inr (dcf', chainEnd, next') \<Rightarrow>
                     if chainEnd then Some (Inr dcf') else wl dcf' segIdx pcs oip next') = Some y"
    show "P dcf segIdx pcs oip nxt y"
    proof (cases "walk_body dcf segIdx pcs oip nxt")
      case (Inl e)
      with unfolded show ?thesis
        unfolding P_def by (subst walk_loop.simps) (auto simp add: ssf_walk_body)
    next
      case (Inr t)
      obtain d c m where t: "t = (d, c, m)" by (cases t)
      show ?thesis
      proof (cases c)
        case True
        with unfolded Inr t show ?thesis
          unfolding P_def by (subst walk_loop.simps) (auto simp add: ssf_walk_body)
      next
        case False
        with unfolded Inr t have "wl d segIdx pcs oip m = Some y" by simp
        from IH [OF this] False Inr t show ?thesis
          unfolding P_def by (subst walk_loop.simps) (simp add: ssf_walk_body)
      qed
    qed
  qed
  then show ?thesis by (simp add: P_def)
qed

lemma ssf_walk_loop:
  "walk_loop (set_symbols_format v dcf) segIdx pcs oip nxt
     = with_symbols_format v (walk_loop dcf segIdx pcs oip nxt)"
proof (cases "walk_loop dcf segIdx pcs oip nxt")
  case (Some y)
  then show ?thesis by (simp add: with_symbols_format_def ssf_walk_loop_Some)
next
  case None
  have "walk_loop (set_symbols_format v dcf) segIdx pcs oip nxt = None"
  proof (rule ccontr)
    assume "walk_loop (set_symbols_format v dcf) segIdx pcs oip nxt \<noteq> None"
    then obtain y where "walk_loop (set_symbols_format v dcf) segIdx pcs oip nxt = Some y"
      by blast
    from ssf_walk_loop_Some [OF this, of "SymbolsFormat (Header dcf)"] None
    show False by (simp add: ssf_restore)
  qed
  with None show ?thesis by (simp add: with_symbols_format_def)
qed

lemma ssf_walkDcFixupChain:
  "walkDcFixupChain (set_symbols_format v dcf) segIdx pageIndex oip
     = with_symbols_format v (walkDcFixupChain dcf segIdx pageIndex oip)"
  by (simp add: walkDcFixupChain_def Let_def ssf_walk_loop with_symbols_format_def split: sum.splits)

lemma with_symbols_format_simps [simp]:
  "with_symbols_format v None = None"
  "with_symbols_format v (Some (Inl e)) = Some (Inl e)"
  "with_symbols_format v (Some (Inr d)) = Some (Inr (set_symbols_format v d))"
  by (simp_all add: with_symbols_format_def)

lemma ssf_multi_loop_Some:
  assumes "multi_loop dcf segIdx pageIndex ps idx = Some y"
  shows "multi_loop (set_symbols_format v dcf) segIdx pageIndex ps idx
           = Some (map_sum id (set_symbols_format v) y)"
proof -
  define P where "P = (\<lambda>dcf segIdx (pageIndex :: u16) (ps :: u16 list) (idx :: u16)
        (y :: failure + DyldChainedFixups).
     multi_loop (set_symbols_format v dcf) segIdx pageIndex ps idx
           = Some (map_sum id (set_symbols_format v) y))"
  have "P dcf segIdx pageIndex ps idx y"
  proof (rule multi_loop.raw_induct [where P = P, OF _ assms])
    fix ml dcf segIdx and pageIndex :: u16 and ps :: "u16 list" and idx :: u16 and y
    assume IH: "\<And>a b c d e z. ml a b c d e = Some z \<Longrightarrow> P a b c d e z"
      and unfolded: "(if unat idx < length ps then
          (let chainEnd = (ps ! unat idx AND DYLD_CHAINED_PTR_START_LAST \<noteq> 0);
               offsetInPage = ps ! unat idx AND NOT DYLD_CHAINED_PTR_START_LAST
           in case walkDcFixupChain dcf segIdx pageIndex offsetInPage of
                None \<Rightarrow> None
              | Some (Inl e) \<Rightarrow> Some (Inl e)
              | Some (Inr dcf') \<Rightarrow>
                  if chainEnd then Some (Inr dcf')
                  else ml dcf' segIdx pageIndex ps (idx + 1))
        else Some (Inl (Panic (IndexOutOfRange (unat idx) (length ps))))) = Some y"
    show "P dcf segIdx pageIndex ps idx y"
    proof (cases "unat idx < length ps")
      case False
      with unfolded show ?thesis
        unfolding P_def by (subst multi_loop.simps) auto
    next
      case True
      let ?oip = "ps ! unat idx AND NOT DYLD_CHAINED_PTR_START_LAST"
      from True unfolded obtain r where r: "walkDcFixupChain dcf segIdx pageIndex ?oip = Some r"
        by (cases "walkDcFixupChain dcf segIdx pageIndex ?oip") (simp_all add: Let_def)
      show ?thesis
      proof (cases r)
        case (Inl e)
        with True unfolded r show ?thesis
          unfolding P_def by (subst multi_loop.simps) (auto simp add: Let_def ssf_walkDcFixupChain)
      next
        case (Inr d)
        show ?thesis
        proof (cases "ps ! unat idx AND DYLD_CHAINED_PTR_START_LAST \<noteq> 0")
          case last: True
          with True unfolded r Inr show ?thesis
            unfolding P_def by (subst multi_loop.simps) (auto simp add: Let_def ssf_walkDcFixupChain)
        next
          case notlast: False
          with True unfolded r Inr have "ml d segIdx pageIndex ps (idx + 1) = Some y"
            by (simp add: Let_def)
          from IH [OF this] True r Inr notlast show ?thesis
            unfolding P_def by (subst multi_loop.simps) (simp add: Let_def ssf_walkDcFixupChain)
        qed
      qed
    qed
  qed
  then show ?thesis by (simp add: P_def)
qed

lemma ssf_multi_loop:
  "multi_loop (set_symbols_format v dcf) segIdx pageIndex ps idx
     = with_symbols_format v (multi_loop dcf segIdx pageIndex ps idx)"
proof (cases "multi_loop dcf segIdx pageIndex ps idx")
  case (Some y)
  then show ?thesis by (simp add: with_symbols_format_def ssf_multi_loop_Some)
next
  case None
  have "multi_loop (set_symbols_format v dcf) segIdx pageIndex ps idx = None"
  proof (rule ccontr)
    assume "multi_loop (set_symbols_format v dcf) segIdx pageIndex ps idx \<noteq> None"
    then obtain y where "multi_loop (set_symbols_format v dcf) segIdx pageIndex ps idx = Some y"
      by blast
    from ssf_multi_loop_Some [OF this, of "SymbolsFormat (Header dcf)"] None
    show False by (simp add: ssf_restore)
  qed
  with None show ?thesis by simp
qed

lemma ssf_walk_page:
  "walk_page (set_symbols_format v dcf) segIdx ps pageIndex
     = with_symbols_format v (walk_page dcf segIdx ps pageIndex)"
  by (simp add: walk_page_def Let_def ssf_multi_loop ssf_walkDcFixupChain)

lemma ssf_walk_pages:
  "walk_pages (set_symbols_format v dcf) segIdx ps is
     = with_symbols_format v (walk_pages dcf segIdx ps is)"
proof (induction "is" arbitrary: dcf)
  case Nil
  show ?case by simp
next
  case (Cons i rest)
  show ?case
  proof (cases "walk_page dcf segIdx ps (of_nat i)")
    case None
    then show ?thesis by (simp add: ssf_walk_page)
  next
    case (Some r)
    then show ?thesis by (cases r) (simp_all add: ssf_walk_page Cons.IH)
  qed
qed

lemma ssf_walk_segments:
  "walk_segments (set_symbols_format v dcf) segs
     = with_symbols_format v (walk_segments dcf segs)"
proof (induction segs arbitrary: dcf)
  case Nil
  show ?case by simp
next
  case (Cons a rest)
  obtain segIdx start where a: "a = (segIdx, start)" by (cases a)
  show ?case
  proof (cases "PageStarts start")
    case None
    with a show ?thesis by (simp add: Cons.IH)
  next
    case (Some ps)
    show ?thesis
    proof (cases "walk_pages dcf segIdx ps [0..<unat (PageCount start)]")
      case None
      with a Some show ?thesis by (simp add: ssf_walk_pages)
    next
      case r: (Some r)
      with a Some show ?thesis by (cases r) (simp_all add: ssf_walk_pages Cons.IH)
    qed
  qed
qed

lemma ssf_read_names:
  "read_names (set_symbols_format v dcf) imps
     = (fst (read_names dcf imps), set_symbols_format v (snd (read_names dcf imps)))"
proof (induction imps arbitrary: dcf)
  case Nil
  show ?case by simp
next
  case (Cons i rest)
  have upd: "\<And>x. (set_symbols_format v dcf)\<lparr>Imports := x\<rparr> = set_symbols_format v (dcf\<lparr>Imports := x\<rparr>)"
    by (simp add: set_symbols_format_def)
  have hdr: "SymbolsOffset (Header (set_symbols_format v dcf)) = SymbolsOffset (Header dcf)"
    by (simp add: set_symbols_format_def)
  show ?case
    by (cases "ReadString (data (lcdat dcf)) (unat (SymbolsOffset (Header dcf)) + unat (NameOffset i))")
       (simp_all add: upd hdr Cons.IH)
qed

lemma ssf_parseImports:
  "parseImports (set_symbols_format v dcf)
     = (fst (parseImports dcf), set_symbols_format v (snd (parseImports dcf)))"
proof -
  have upd: "\<And>x. (set_symbols_format v dcf)\<lparr>lcdat := x\<rparr> = set_symbols_format v (dcf\<lparr>lcdat := x\<rparr>)"
    by (simp add: set_symbols_format_def)
  have hdr: "ImportsOffset (Header (set_symbols_format v dcf)) = ImportsOffset (Header dcf)"
    "ImportsFormat (Header (set_symbols_format v dcf)) = ImportsFormat (Header dcf)"
    "ImportsCount (Header (set_symbols_format v dcf)) = ImportsCount (Header dcf)"
    by (simp_all add: set_symbols_format_def)
  show ?thesis
    by (simp add: parseImports_def Let_def hdr upd ssf_read_names split: sum.splits)
qed

text \<open>
  Claim C4, amended.  A header with \<open>symbols_format = 1\<close> is processed as any other: once
  the starts are parsed, \<open>parseImports\<close> returns the same error (or none) and \<open>Parse\<close> the
  same result, a failure or the same aggregate but for the field itself, whatever value
  \<open>SymbolsFormat\<close> has.  The symbol pool is always read as raw bytes.
\<close>

theorem Parse_ignores_symbols_format:
  assumes "Starts dcf \<noteq> None"
  shows "fst (parseImports (set_symbols_format v dcf)) = fst (parseImports dcf)
         \<and> Parse (set_symbols_format v dcf) = with_symbols_format v (Parse dcf)"
proof -
  have "starts_list (set_symbols_format v (snd (parseImports dcf))) = starts_list (snd (parseImports dcf))"
    by (simp add: starts_list_def)
  moreover from assms obtain ss where "Starts dcf = Some ss" by blast
  ultimately show ?thesis
    by (simp add: Parse_def Let_def ssf_parseImports ssf_walk_segments)
qed

theorem Parse_ignores_symbols_format_witness:
  "fst (parseImports (set_symbols_format 1 (dcf_of_segments [seg_s2] [] image_s2)))
     = fst (parseImports (dcf_of_segments [seg_s2] [] image_s2))
   \<and> Parse (set_symbols_format 1 (dcf_of_segments [seg_s2] [] image_s2))
     = with_symbols_format 1 (Parse (dcf_of_segments [seg_s2] [] image_s2))"
  by (rule Parse_ignores_symbols_format) (simp add: dcf_of_segments_def)








section \<open>Properties of the read-through overlay\<close>

lemma length_PutUint [simp]:
  "length (PutUint32 bo w) = 4" "length (PutUint64 bo v) = 8"
  by (cases bo; simp add: PutUint32_def PutUint64_def le_bytes32_def le_bytes64_def)+

lemma copy_into_nothing: "copy_into p dstOff 0 src = p"
proof -
  have "take (unat dstOff) (content p @ spare p) @ take (min (unat (0 :: u64)) (length src)) src
          @ drop (unat dstOff + min (unat (0 :: u64)) (length src)) (content p @ spare p)
        = content p @ spare p"
    by (simp del: take_append drop_append)
  then show ?thesis
    unfolding copy_into_def Let_def by simp
qed

lemma slice_of_empty: "unat low \<le> length arr \<Longrightarrow> slice_of arr low low = Inr []"
  by (simp add: slice_of_def)

lemma patch_rebase_outside:
  assumes ps: "pointerSize lrr = 4 \<or> pointerSize lrr = 8"
    and nowrap: "unat off + length (content p) < 2 ^ 64"
    and slot: "unat rOff + unat (pointerSize lrr) < 2 ^ 64"
    and apart: "unat rOff + unat (pointerSize lrr) \<le> unat off
                 \<or> unat off + length (content p) \<le> unat rOff"
  shows "patch_rebase lrr off p (rOff, r) = Inr p"
proof -
  let ?L = "length (content p)"
  let ?max = "off + of_nat ?L"
  let ?ps = "pointerSize lrr"
  have L: "unat (of_nat ?L :: u64) = ?L"
    using nowrap by (simp add: unat_of_nat)
  have max: "unat ?max = unat off + ?L"
    using nowrap L by (simp add: unat_add_lem [THEN iffD1])
  have slot_end: "unat (rOff + ?ps) = unat rOff + unat ?ps"
    using slot by (simp add: unat_add_lem [THEN iffD1])
  obtain put where put: "writePointer lrr = Some put" and len: "\<And>v. length (put v) = unat ?ps"
    using ps by (auto simp add: writePointer_def)
  show ?thesis
  proof (cases "rOff + ?ps < off \<or> rOff > ?max")
    case True
    then show ?thesis by (simp add: patch_rebase_def Let_def)
  next
    case False
    then have ns: "\<not> (unat rOff + unat ?ps < unat off)" "\<not> (unat off + ?L < unat rOff)"
      using max slot_end by (simp_all add: word_less_nat_alt)
    from ps have pos: "0 < unat ?ps" by auto
    from apart show ?thesis
    proof
      assume "unat rOff + unat ?ps \<le> unat off"
      with ns have eq: "unat rOff + unat ?ps = unat off" by simp
      then have off: "off = rOff + ?ps"
        using slot_end by (simp add: word_unat_eq_iff)
      have lt: "rOff < off" using eq pos by (simp add: word_less_nat_alt)
      have src: "off - rOff = ?ps" using off by simp
      have nogt: "\<not> rOff > ?max" using False by simp
      show ?thesis
        using False lt src nogt put len
        by (simp add: patch_rebase_def Let_def slice_of_empty copy_into_nothing)
    next
      assume "unat off + ?L \<le> unat rOff"
      with ns have eq: "unat rOff = unat off + ?L" by simp
      then have r: "rOff = ?max" using max by (simp add: word_unat_eq_iff)
      have nlt: "\<not> rOff < off" using eq by (simp add: word_less_nat_alt)
      have gt: "rOff + ?ps > ?max"
        using slot_end max eq pos by (simp add: word_less_nat_alt)
      have dst: "unat (rOff - off) = ?L" using r L by simp
      show ?thesis
        using False nlt gt dst put len
        by (simp add: patch_rebase_def Let_def slice_of_def copy_into_nothing r [symmetric])
    qed
  qed
qed

lemma patch_loop_outside:
  assumes "pointerSize lrr = 4 \<or> pointerSize lrr = 8"
    and "unat off + length (content p) < 2 ^ 64"
    and "\<forall>(rOff, r) \<in> set rs.
            unat rOff + unat (pointerSize lrr) < 2 ^ 64
            \<and> (unat rOff + unat (pointerSize lrr) \<le> unat off
                \<or> unat off + length (content p) \<le> unat rOff)"
  shows "patch_loop lrr off p rs = (None, p)"
  using assms(3)
proof (induction rs)
  case Nil
  show ?case by simp
next
  case (Cons e rs)
  obtain rOff r where e: "e = (rOff, r)" by (cases e)
  with Cons.prems have "patch_rebase lrr off p e = Inr p"
    by (auto intro!: patch_rebase_outside [OF assms(1,2)])
  with Cons show ?case by simp
qed

lemma length_content_fill [simp]: "length (content (fill p bs)) = length (content p)"
  by (simp add: fill_def)

text \<open>A \<open>ReadAt\<close> whose byte range \<open>[off, off + len(buf))\<close> lies before or behind the slot
  range \<open>[rOff, rOff + pointerSize)\<close> of every recorded rebase returns the bytes of the
  underlying reader unchanged, with its count and no error.  Offsets and lengths are those
  of Go (\<open>int64\<close> offsets, \<open>int\<close> lengths), so neither range wraps around \<open>2^64\<close>; the
  pointer size is 4 or 8 whenever there is a rebase, as \<open>init\<close> leaves it.  A read of
  4 bytes right behind the slot of the overlay is such a read.\<close>

lemma ReadAt_apart_from_slots:
  assumes "underlying (length (content p)) off = (bs, None)"
    and "unat off + length (content p) < 2 ^ 64"
    and "rebases lrr \<noteq> [] \<longrightarrow> pointerSize lrr = 4 \<or> pointerSize lrr = 8"
    and "\<forall>(rOff, r) \<in> set (rebases lrr).
            unat rOff + unat (pointerSize lrr) < 2 ^ 64
            \<and> (unat rOff + unat (pointerSize lrr) \<le> unat off
                \<or> unat off + length (content p) \<le> unat rOff)"
  shows "ReadAt lrr underlying p off = (fill p bs, min (length bs) (length (content p)), None)"
proof (cases "rebases lrr = []")
  case True
  with assms(1) show ?thesis
    by (simp add: ReadAt_def patchReadBytes_def)
next
  case False
  with assms(3) have ps: "pointerSize lrr = 4 \<or> pointerSize lrr = 8" by simp
  have "patch_loop lrr off (fill p bs) (rebases lrr) = (None, fill p bs)"
    using assms(2,4) by (intro patch_loop_outside [OF ps]) simp_all
  with assms(1) show ?thesis
    by (simp add: ReadAt_def patchReadBytes_def)
qed

lemma ReadAt_behind_slot:
  "ReadAt overlay_one_rebase image_reader \<lparr>content = [0, 0, 0, 0], spare = []\<rparr> 0x18
     = (\<lparr>content = [0xAA, 0xAA, 0xAA, 0xAA], spare = []\<rparr>, 4, None)"
proof -
  have "ReadAt overlay_one_rebase image_reader \<lparr>content = [0, 0, 0, 0], spare = []\<rparr> 0x18
     = (fill \<lparr>content = [0, 0, 0, 0], spare = []\<rparr> [0xAA, 0xAA, 0xAA, 0xAA],
        min (length [0xAA :: byte, 0xAA, 0xAA, 0xAA]) (length (content \<lparr>content = [0, 0, 0, 0], spare = []\<rparr>)), None)"
    by (rule ReadAt_apart_from_slots)
       (simp_all add: overlay_one_rebase_def image_reader_def)
  then show ?thesis by (simp add: fill_def)
qed

lemmas overlay_defs = ReadAt_def patchReadBytes_def patch_rebase_def writePointer_def
  slice_of_def copy_into_def PutUint32_def PutUint64_def le_bytes32_def le_bytes64_def
  fill_def Let_def

text \<open>The overlaps that \<open>patchReadBytes\<close> handles: a read that covers the slot, a read
  that starts inside the slot and reaches its end, and a read that starts before the slot
  and ends inside it.  The bytes of the slot are replaced by those of the resolved word
  \<open>0x111223344\<close>.\<close>

lemma ReadAt_other_overlaps_patch:
  "ReadAt overlay_one_rebase image_reader \<lparr>content = [0, 0, 0, 0, 0, 0, 0, 0], spare = []\<rparr> 0x10
     = (\<lparr>content = [0x44, 0x33, 0x22, 0x11, 0x01, 0, 0, 0], spare = []\<rparr>, 8, None)
   \<and> ReadAt overlay_one_rebase image_reader \<lparr>content = [0, 0, 0, 0], spare = []\<rparr> 0x14
     = (\<lparr>content = [0x01, 0, 0, 0], spare = []\<rparr>, 4, None)
   \<and> ReadAt overlay_one_rebase image_reader \<lparr>content = [0, 0, 0, 0, 0, 0, 0, 0], spare = []\<rparr> 0x0A
     = (\<lparr>content = [0xAA, 0xAA, 0xAA, 0xAA, 0xAA, 0xAA, 0x44, 0x33], spare = []\<rparr>, 8, None)"
  by (simp add: overlay_defs overlay_one_rebase_def image_reader_def rebase_11223344_def)

text \<open>
  Claim C8 is not met by the code.  For a read that starts after the start of a slot and
  ends before its end, \<open>patchReadBytes\<close> takes \<open>max - rOff\<close> for the number of bytes to
  compare instead of \<open>max - off\<close>.  A read of 2 bytes at \<open>0x12\<close> inside the slot at \<open>0x10\<close>,
  whose bytes match the raw word, slices \<open>p[0:4]\<close>: a panic when the buffer has capacity
  2, and a mismatch error against the two bytes behind the buffer when it has capacity 4.
\<close>

theorem ReadAt_inside_slot_fails:
  "ReadAt overlay_one_rebase image_reader \<lparr>content = [0, 0], spare = []\<rparr> 0x12
     = (\<lparr>content = [0x22, 0x11], spare = []\<rparr>, 0, Some (Panic (SliceBoundsOutOfRange 0 4 2)))
   \<and> ReadAt overlay_one_rebase image_reader \<lparr>content = [0, 0], spare = [0xEE, 0xEE]\<rparr> 0x12
     = (\<lparr>content = [0x22, 0x11], spare = [0xEE, 0xEE]\<rparr>, 0,
        Some (Error (UnderlyingReadMismatch 0x10 [0x22, 0x11, 0xEE, 0xEE] [0x22, 0x11, 0, 0])))"
  by (simp add: overlay_defs overlay_one_rebase_def image_reader_def rebase_11223344_def)

text \<open>
  Claim C9 is not met by the code.  A read of no bytes meets no slot, wherever it is
  placed, and so has to return without an error.  Placed inside a slot it does not: for
  the offset \<open>0x12\<close> inside the slot at \<open>0x10\<close>, \<open>patchReadBytes\<close> does not skip the rebase
  (\<open>rOff + pointerSize < off\<close> and \<open>rOff > max\<close> are both false) and takes \<open>max - rOff = 2\<close>
  for the number of bytes to compare instead of \<open>max - off = 0\<close>, the same miscount as for
  claim C8.  It slices \<open>p[0:2]\<close> of the empty buffer: a panic when the buffer has capacity
  0, and a mismatch error against the two bytes behind the buffer when it has capacity 2.
\<close>

theorem ReadAt_empty_inside_slot_fails:
  "ReadAt overlay_one_rebase image_reader \<lparr>content = [], spare = []\<rparr> 0x12
     = (\<lparr>content = [], spare = []\<rparr>, 0, Some (Panic (SliceBoundsOutOfRange 0 2 0)))
   \<and> ReadAt overlay_one_rebase image_reader \<lparr>content = [], spare = [0xEE, 0xEE]\<rparr> 0x12
     = (\<lparr>content = [], spare = [0xEE, 0xEE]\<rparr>, 0,
        Some (Error (UnderlyingReadMismatch 0x10 [0xEE, 0xEE] [0x22, 0x11])))"
  by (simp add: overlay_defs overlay_one_rebase_def image_reader_def rebase_11223344_def)

end
